theory Spec2Isabelle
  imports Complex_Main "HOL-Library.Char_ord" "HOL-Library.List_Lexorder"
begin

section \<open>Data model of the alert receiver\<close>

text \<open>
  Go's \<open>time.Time\<close> is modelled as the integer number of nanoseconds since the zero
  instant of \<open>time.Time\<close> (so \<open>IsZero\<close> is equality with 0), and \<open>time.Duration\<close> as an
  integer number of nanoseconds; the times of this program come from the clock and from
  JSON timestamps, far from the bounds of their 64-bit representation. A
  \<open>map[string]string\<close> is an association list with distinct keys, in no particular
  order. A \<open>float64\<close> field is a real number: the program only stores these values
  and compares them with 0, and JSON decoding yields neither NaN nor an infinity.
  Field names carry a prefix naming their struct, because the Go structs share
  field names.
\<close>

type_synonym gotime = int
type_synonym duration = int
type_synonym strmap = "(string \<times> string) list"

record GrafanaAlert =
  al_Status :: string
  al_Labels :: strmap
  al_Annotations :: strmap
  al_StartsAt :: gotime
  al_EndsAt :: gotime
  al_GeneratorURL :: string
  al_Fingerprint :: string
  al_SilenceURL :: string
  al_DashboardURL :: string
  al_PanelURL :: string

record GrafanaWebhookPayload =
  pl_Receiver :: string
  pl_Status :: string
  pl_Alerts :: "GrafanaAlert list"
  pl_GroupLabels :: strmap
  pl_CommonLabels :: strmap
  pl_CommonAnnotations :: strmap
  pl_ExternalURL :: string
  pl_Version :: string
  pl_GroupKey :: string
  pl_TruncatedAlerts :: int

record MetricQuery =
  mq_Name :: string
  mq_Description :: string
  mq_Query :: string

record MetricSeries =
  se_Labels :: strmap
  se_Value :: string

record MetricSnapshot =
  ms_Name :: string
  ms_Description :: string
  ms_Query :: string
  ms_ResultType :: string
  ms_Summary :: string
  ms_Series :: "MetricSeries list"
  ms_Error :: string

record LLMRequest =
  rq_SystemPrompt :: string
  rq_UserPrompt :: string
  rq_MaxTokens :: int
  rq_Temperature :: real

record StructuredAnalysis =
  sa_Summary :: string
  sa_LikelyIssue :: string
  sa_Confidence :: real
  sa_Evidence :: "string list"
  sa_PotentialFix :: "string list"
  sa_NextChecks :: "string list"

record ProviderResult =
  pr_Provider :: string
  pr_Type :: string
  pr_Model :: string
  pr_DurationMS :: int
  pr_Response :: string
  pr_Parsed :: "StructuredAnalysis option"
  pr_Error :: string

record analysisJob =
  job_ID :: string
  job_ReceivedAt :: gotime
  job_Payload :: GrafanaWebhookPayload

record alertSummary =
  su_Status :: string
  su_Labels :: strmap
  su_Annotations :: strmap
  su_StartsAt :: gotime
  su_EndsAt :: gotime

record analysisRecord =
  rec_ID :: string
  rec_ReceivedAt :: gotime
  rec_CompletedAt :: gotime
  rec_AlertStatus :: string
  rec_Receiver :: string
  rec_GroupKey :: string
  rec_CommonLabels :: strmap
  rec_CommonAnnots :: strmap
  rec_AlertSummaries :: "alertSummary list"
  rec_Metrics :: "MetricSnapshot list"
  rec_Providers :: "ProviderResult list"
  rec_Error :: string

text \<open>The zero value of a Go struct: what \<open>ProviderResult{}\<close> and friends denote.\<close>

definition zeroProviderResult :: ProviderResult where
  "zeroProviderResult =
     \<lparr>pr_Provider = [], pr_Type = [], pr_Model = [], pr_DurationMS = 0,
      pr_Response = [], pr_Parsed = None, pr_Error = []\<rparr>"

definition zeroMetricSnapshot :: MetricSnapshot where
  "zeroMetricSnapshot =
     \<lparr>ms_Name = [], ms_Description = [], ms_Query = [], ms_ResultType = [],
      ms_Summary = [], ms_Series = [], ms_Error = []\<rparr>"

section \<open>The record store\<close>

text \<open>A run-time panic of the Go program; an unrecovered panic ends the process.\<close>

datatype panic = SliceBoundsOutOfRange int

record analysisStore =
  st_max :: int
  st_items :: "analysisRecord list"

definition newAnalysisStore :: "int \<Rightarrow> analysisStore" where
  "newAnalysisStore m = \<lparr>st_max = m, st_items = []\<rparr>"

text \<open>
  \<open>add\<close> prepends and, when the length exceeds \<open>max\<close>, reslices to \<open>items[:max]\<close>.
  The reslice panics for a negative \<open>max\<close>; otherwise \<open>max\<close> is below the length and
  the reslice keeps the first \<open>max\<close> elements.
\<close>

definition add :: "analysisStore \<Rightarrow> analysisRecord \<Rightarrow> panic + analysisStore" where
  "add s record =
     (let its = record # st_items s in
      if int (length its) > st_max s
      then (if st_max s < 0 then Inl (SliceBoundsOutOfRange (st_max s))
            else Inr (s\<lparr>st_items := take (nat (st_max s)) its\<rparr>))
      else Inr (s\<lparr>st_items := its\<rparr>))"

definition list_store :: "analysisStore \<Rightarrow> analysisRecord list" where
  "list_store s = st_items s"

text \<open>A sequence of \<open>add\<close> calls, first element added first; a panic ends the sequence.\<close>

fun addAll :: "analysisStore \<Rightarrow> analysisRecord list \<Rightarrow> panic + analysisStore" where
  "addAll s [] = Inr s"
| "addAll s (r # rs) = (case add s r of Inl e \<Rightarrow> Inl e | Inr s' \<Rightarrow> addAll s' rs)"

section \<open>Strings\<close>

text \<open>
  Go strings are byte sequences holding UTF-8. \<open>strings.TrimSpace\<close> removes, at both
  ends, every rune for which \<open>unicode.IsSpace\<close> holds: the six ASCII white-space bytes
  and the code points U+0085, U+00A0, U+1680, U+2000 to U+200A, U+2028, U+2029, U+202F,
  U+205F and U+3000. \<open>spaceRunes\<close> lists their UTF-8 encodings. A byte sequence that
  is not one of these encodings decodes to a rune that is not a space.
\<close>

definition spaceRunes :: "string list" where
  "spaceRunes =
     [[CHR 0x09], [CHR 0x0A], [CHR 0x0B], [CHR 0x0C], [CHR 0x0D], [CHR 0x20],
      [CHR 0xC2, CHR 0x85], [CHR 0xC2, CHR 0xA0],
      [CHR 0xE1, CHR 0x9A, CHR 0x80],
      [CHR 0xE2, CHR 0x80, CHR 0x80], [CHR 0xE2, CHR 0x80, CHR 0x81],
      [CHR 0xE2, CHR 0x80, CHR 0x82], [CHR 0xE2, CHR 0x80, CHR 0x83],
      [CHR 0xE2, CHR 0x80, CHR 0x84], [CHR 0xE2, CHR 0x80, CHR 0x85],
      [CHR 0xE2, CHR 0x80, CHR 0x86], [CHR 0xE2, CHR 0x80, CHR 0x87],
      [CHR 0xE2, CHR 0x80, CHR 0x88], [CHR 0xE2, CHR 0x80, CHR 0x89],
      [CHR 0xE2, CHR 0x80, CHR 0x8A],
      [CHR 0xE2, CHR 0x80, CHR 0xA8], [CHR 0xE2, CHR 0x80, CHR 0xA9],
      [CHR 0xE2, CHR 0x80, CHR 0xAF],
      [CHR 0xE2, CHR 0x81, CHR 0x9F],
      [CHR 0xE3, CHR 0x80, CHR 0x80]]"

text \<open>The width in bytes of the rune of \<open>pats\<close> that \<open>s\<close> starts with, 0 if there is none.\<close>

definition leadWidth :: "string list \<Rightarrow> string \<Rightarrow> nat" where
  "leadWidth pats s =
     (case filter (\<lambda>p. take (length p) s = p) pats of [] \<Rightarrow> 0 | p # _ \<Rightarrow> length p)"

text \<open>
  \<open>trimLead pats s k\<close> skips \<open>k\<close> pending bytes of a matched rune and then every further
  leading rune of \<open>pats\<close>.
\<close>

primrec trimLead :: "string list \<Rightarrow> string \<Rightarrow> nat \<Rightarrow> string" where
  "trimLead pats [] k = []"
| "trimLead pats (c # cs) k =
     (if 0 < k then trimLead pats cs (k - 1)
      else (let n = leadWidth pats (c # cs) in
            if n = 0 then c # cs else trimLead pats cs (n - 1)))"

definition TrimSpace :: "string \<Rightarrow> string" where
  "TrimSpace s = rev (trimLead (map rev spaceRunes) (rev (trimLead spaceRunes s 0)) 0)"

text \<open>\<open>strings.TrimRight(s, "/")\<close>.\<close>

definition TrimRightSlash :: "string \<Rightarrow> string" where
  "TrimRightSlash s = rev (dropWhile (\<lambda>c. c = CHR ''/'') (rev s))"

text \<open>\<open>strings.Join\<close>.\<close>

fun Join :: "string list \<Rightarrow> string \<Rightarrow> string" where
  "Join [] sep = []"
| "Join [x] sep = x"
| "Join (x # y # ys) sep = x @ sep @ Join (y # ys) sep"

text \<open>The decimal rendering of an integer, as the verb \<open>%d\<close> prints it.\<close>

fun showNat :: "nat \<Rightarrow> string" where
  "showNat n =
     (if n < 10 then [char_of (48 + n)]
      else showNat (n div 10) @ [char_of (48 + n mod 10)])"

declare showNat.simps [simp del]

definition showInt :: "int \<Rightarrow> string" where
  "showInt i = (if i < 0 then CHR ''-'' # showNat (nat (- i)) else showNat (nat i))"

section \<open>Configuration\<close>

record BackendConfig =
  bc_Name :: string
  bc_Type :: string
  bc_Model :: string
  bc_BaseURL :: string
  bc_APIKeyEnv :: string
  bc_Region :: string
  bc_SystemPrompt :: string
  bc_MaxTokens :: int
  bc_Temperature :: real

record Config =
  cfg_Port :: int
  cfg_PrometheusURL :: string
  cfg_PrometheusLookback :: duration
  cfg_PrometheusTimeout :: duration
  cfg_LLMTimeout :: duration
  cfg_JobQueueSize :: int
  cfg_WorkerCount :: int
  cfg_MaxStoredAnalyses :: int
  cfg_Backends :: "BackendConfig list"
  cfg_MetricQueries :: "MetricQuery list"

datatype configError =
    ParseBackendsError string
  | MissingModel string string
  | MissingAPIKey string string
  | MissingRegion string
  | UnsupportedBackendType string
  | ParseMetricQueriesError string

text \<open>
  The loop body of \<open>parseBackends\<close>. \<open>strings.ToLower\<close> is a parameter: its Unicode
  case tables are not part of this program.
\<close>

definition normalizeBackend :: "(string \<Rightarrow> string) \<Rightarrow> BackendConfig \<Rightarrow> BackendConfig" where
  "normalizeBackend toLower b =
     (let b1 = b\<lparr>bc_Type := toLower (TrimSpace (bc_Type b))\<rparr>;
          b2 = (if bc_Type b1 = [] then b1\<lparr>bc_Type := ''openai''\<rparr> else b1);
          b3 = (if bc_Name b2 = [] then b2\<lparr>bc_Name := bc_Type b2\<rparr> else b2);
          b4 = (if bc_MaxTokens b3 = 0 then b3\<lparr>bc_MaxTokens := 900\<rparr> else b3)
      in (if bc_Temperature b4 = 0 then b4\<lparr>bc_Temperature := 2 / 10\<rparr> else b4))"

text \<open>
  \<open>parseBackends\<close>: \<open>unmarshal\<close> stands for \<open>json.Unmarshal\<close> into a slice of
  \<open>BackendConfig\<close>, giving the decoder's error text or the decoded slice.
\<close>

definition parseBackends ::
  "(string \<Rightarrow> string + BackendConfig list) \<Rightarrow> (string \<Rightarrow> string) \<Rightarrow> string
     \<Rightarrow> configError + BackendConfig list" where
  "parseBackends unmarshal toLower raw =
     (case unmarshal raw of
        Inl e \<Rightarrow> Inl (ParseBackendsError e)
      | Inr backends \<Rightarrow> Inr (map (normalizeBackend toLower) backends))"

text \<open>
  What the start of the process reads from outside: the environment variables and the
  library parsers \<open>strconv.Atoi\<close>, \<open>time.ParseDuration\<close>, \<open>json.Unmarshal\<close> (into
  a slice of backends, into a slice of queries) and \<open>strings.ToLower\<close>.
\<close>

record sysEnv =
  os_Getenv :: "string \<Rightarrow> string"
  os_Atoi :: "string \<Rightarrow> int option"
  os_ParseDuration :: "string \<Rightarrow> duration option"
  os_unmarshalBackends :: "string \<Rightarrow> string + BackendConfig list"
  os_unmarshalQueries :: "string \<Rightarrow> string + MetricQuery list"
  os_ToLower :: "string \<Rightarrow> string"

definition envString :: "sysEnv \<Rightarrow> string \<Rightarrow> string \<Rightarrow> string" where
  "envString sys key defaultVal =
     (let v = TrimSpace (os_Getenv sys key) in if v \<noteq> [] then v else defaultVal)"

definition envInt :: "sysEnv \<Rightarrow> string \<Rightarrow> int \<Rightarrow> int" where
  "envInt sys key defaultVal =
     (let v = TrimSpace (os_Getenv sys key)
      in if v \<noteq> [] then (case os_Atoi sys v of Some n \<Rightarrow> n | None \<Rightarrow> defaultVal)
         else defaultVal)"

definition envDuration :: "sysEnv \<Rightarrow> string \<Rightarrow> duration \<Rightarrow> duration" where
  "envDuration sys key defaultVal =
     (let v = TrimSpace (os_Getenv sys key)
      in if v \<noteq> [] then (case os_ParseDuration sys v of Some d \<Rightarrow> d | None \<Rightarrow> defaultVal)
         else defaultVal)"

text \<open>Go's integer division truncates towards zero.\<close>

definition quo :: "int \<Rightarrow> int \<Rightarrow> int" where
  "quo a b = (if a < 0 then - ((- a) div b) else a div b)"

definition promDuration :: "duration \<Rightarrow> string" where
  "promDuration d =
     (if d mod 3600000000000 = 0 then showInt (quo d 3600000000000) @ ''h''
      else if d mod 60000000000 = 0 then showInt (quo d 60000000000) @ ''m''
      else showInt (quo d 1000000000) @ ''s'')"

definition parseMetricQueries :: "sysEnv \<Rightarrow> string \<Rightarrow> configError + MetricQuery list" where
  "parseMetricQueries sys raw =
     (case os_unmarshalQueries sys raw of
        Inl e \<Rightarrow> Inl (ParseMetricQueriesError e)
      | Inr queries \<Rightarrow> Inr queries)"

definition defaultMetricQueries :: "duration \<Rightarrow> MetricQuery list" where
  \<open>defaultMetricQueries lookback =
     (let lb = promDuration lookback in
     [
      \<lparr>mq_Name = ''gateway_reachable_avg'',
       mq_Description = ''Average gateway reachability over the lookback window'',
       mq_Query = ''avg_over_time(gateway_reachable{job="gateway-monitor"}['' @ lb @ ''])''\<rparr>,
      \<lparr>mq_Name = ''wan_reachable_avg'',
       mq_Description = ''Average WAN reachability over the lookback window'',
       mq_Query = ''avg_over_time(wan_reachable{job="gateway-monitor"}['' @ lb @ ''])''\<rparr>,
      \<lparr>mq_Name = ''wifi_probe_up_avg'',
       mq_Description = ''Average WiFi probe success over the lookback window'',
       mq_Query = ''avg_over_time(wifi_probe_up{job="wifi-probe"}['' @ lb @ ''])''\<rparr>,
      \<lparr>mq_Name = ''wifi_probe_errors'',
       mq_Description = ''WiFi probe errors accumulated over the lookback window'',
       mq_Query = ''increase(wifi_probe_errors_total{job="wifi-probe"}['' @ lb @ ''])''\<rparr>,
      \<lparr>mq_Name = ''jitter_avg_ms'',
       mq_Description = ''Average jitter in milliseconds over the lookback window'',
       mq_Query = ''avg_over_time(network_jitter_ms{job="jitter-probe"}['' @ lb @ ''])''\<rparr>,
      \<lparr>mq_Name = ''jitter_max_ms'',
       mq_Description = ''Worst jitter in milliseconds over the lookback window'',
       mq_Query = ''max_over_time(network_jitter_ms{job="jitter-probe"}['' @ lb @ ''])''\<rparr>,
      \<lparr>mq_Name = ''latency_p99_avg_ms'',
       mq_Description = ''Average p99 latency over the lookback window'',
       mq_Query = ''avg_over_time(latency_p99{job="jitter-probe"}['' @ lb @ ''])''\<rparr>,
      \<lparr>mq_Name = ''latency_p99_max_ms'',
       mq_Description = ''Worst p99 latency over the lookback window'',
       mq_Query = ''max_over_time(latency_p99{job="jitter-probe"}['' @ lb @ ''])''\<rparr>,
      \<lparr>mq_Name = ''packet_loss_total'',
       mq_Description = ''Packet loss accumulated over the lookback window'',
       mq_Query = ''increase(packet_loss_total{job="jitter-probe"}['' @ lb @ ''])''\<rparr>,
      \<lparr>mq_Name = ''packet_loss_bursts'',
       mq_Description = ''Packet loss bursts accumulated over the lookback window'',
       mq_Query = ''increase(packet_loss_burst_total{job="jitter-probe"}['' @ lb @ ''])''\<rparr>,
      \<lparr>mq_Name = ''dns_timeouts'',
       mq_Description = ''DNS timeouts accumulated over the lookback window'',
       mq_Query = ''increase(dns_probe_timeouts_total{job="dns-probe"}['' @ lb @ ''])''\<rparr>,
      \<lparr>mq_Name = ''dns_latency_avg_seconds'',
       mq_Description = ''Average DNS latency over the lookback window'',
       mq_Query = ''avg_over_time(dns_probe_latency_seconds{job="dns-probe"}['' @ lb @ ''])''\<rparr>,
      \<lparr>mq_Name = ''failure_domain_events'',
       mq_Description = ''Gateway monitor domain transitions over the lookback window'',
       mq_Query = ''increase(failure_domain_events_total{job="gateway-monitor"}['' @ lb @ ''])''\<rparr>,
      \<lparr>mq_Name = ''carrier_changes'',
       mq_Description = ''Host carrier changes on likely uplink devices'',
       mq_Query = ''increase(node_network_carrier_changes_total{job="node-exporter",device=~"eth0|wlan0|en0"}['' @ lb @ ''])''\<rparr>,
      \<lparr>mq_Name = ''link_drops'',
       mq_Description = ''Receive and transmit drops on likely uplink devices'',
       mq_Query = ''rate(node_network_receive_drop_total{job="node-exporter",device=~"eth0|wlan0|en0"}['' @ lb @ '']) + rate(node_network_transmit_drop_total{job="node-exporter",device=~"eth0|wlan0|en0"}['' @ lb @ ''])''\<rparr>,
      \<lparr>mq_Name = ''link_errors'',
       mq_Description = ''Receive and transmit errors on likely uplink devices'',
       mq_Query = ''rate(node_network_receive_errs_total{job="node-exporter",device=~"eth0|wlan0|en0"}['' @ lb @ '']) + rate(node_network_transmit_errs_total{job="node-exporter",device=~"eth0|wlan0|en0"}['' @ lb @ ''])''\<rparr>,
      \<lparr>mq_Name = ''tcp_retransmits'',
       mq_Description = ''TCP retransmit rate from node-exporter'',
       mq_Query = ''rate(node_netstat_Tcp_RetransSegs{job="node-exporter"}['' @ lb @ ''])''\<rparr>,
      \<lparr>mq_Name = ''softnet_squeezed'',
       mq_Description = ''Softnet times squeezed rate'',
       mq_Query = ''sum(rate(node_softnet_times_squeezed_total{job="node-exporter"}['' @ lb @ '']))''\<rparr>,
      \<lparr>mq_Name = ''softnet_dropped'',
       mq_Description = ''Softnet drop rate'',
       mq_Query = ''sum(rate(node_softnet_dropped_total{job="node-exporter"}['' @ lb @ '']))''\<rparr>,
      \<lparr>mq_Name = ''uplink_rx_bps'',
       mq_Description = ''Receive throughput on likely uplink devices'',
       mq_Query = ''rate(node_network_receive_bytes_total{job="node-exporter",device=~"eth0|wlan0|en0"}['' @ lb @ ''])''\<rparr>,
      \<lparr>mq_Name = ''uplink_tx_bps'',
       mq_Description = ''Transmit throughput on likely uplink devices'',
       mq_Query = ''rate(node_network_transmit_bytes_total{job="node-exporter",device=~"eth0|wlan0|en0"}['' @ lb @ ''])''\<rparr>
     ])\<close>

definition loadConfig :: "sysEnv \<Rightarrow> configError + Config" where
  "loadConfig sys =
     (let cfg =
            \<lparr>cfg_Port = envInt sys ''PORT'' 9094,
             cfg_PrometheusURL = envString sys ''PROMETHEUS_URL'' ''http://host.k3d.internal:9090'',
             cfg_PrometheusLookback = envDuration sys ''PROMETHEUS_LOOKBACK'' (30 * 60000000000),
             cfg_PrometheusTimeout = envDuration sys ''PROMETHEUS_TIMEOUT'' (10 * 1000000000),
             cfg_LLMTimeout = envDuration sys ''LLM_TIMEOUT'' (30 * 1000000000),
             cfg_JobQueueSize = envInt sys ''JOB_QUEUE_SIZE'' 32,
             cfg_WorkerCount = envInt sys ''WORKER_CONCURRENCY'' 2,
             cfg_MaxStoredAnalyses = envInt sys ''MAX_STORED_ANALYSES'' 25,
             cfg_Backends = [],
             cfg_MetricQueries = []\<rparr>
      in case parseBackends (os_unmarshalBackends sys) (os_ToLower sys)
                (envString sys ''LLM_BACKENDS_JSON'' ''[]'') of
           Inl e \<Rightarrow> Inl e
         | Inr backends \<Rightarrow>
             (let cfg1 = cfg\<lparr>cfg_Backends := backends\<rparr>;
                  metricQueryJSON = TrimSpace (os_Getenv sys ''METRIC_QUERIES_JSON'')
              in if metricQueryJSON \<noteq> []
                 then (case parseMetricQueries sys metricQueryJSON of
                         Inl e \<Rightarrow> Inl e
                       | Inr queries \<Rightarrow> Inr (cfg1\<lparr>cfg_MetricQueries := queries\<rparr>))
                 else Inr (cfg1\<lparr>cfg_MetricQueries :=
                              defaultMetricQueries (cfg_PrometheusLookback cfg1)\<rparr>)))"

section \<open>Backend adapters\<close>

record openAIProvider =
  oa_name :: string
  oa_model :: string
  oa_baseURL :: string
  oa_apiKey :: string
  oa_systemPrompt :: string
  oa_maxTokens :: int
  oa_temperature :: real

record ollamaProvider =
  ol_name :: string
  ol_model :: string
  ol_baseURL :: string
  ol_systemPrompt :: string
  ol_maxTokens :: int
  ol_temperature :: real

record bedrockProvider =
  br_name :: string
  br_model :: string
  br_region :: string
  br_systemPrompt :: string
  br_maxTokens :: int
  br_temperature :: real

datatype LLMProvider =
    OpenAI openAIProvider
  | Ollama ollamaProvider
  | Bedrock bedrockProvider

definition applyProviderOverrides :: "LLMRequest \<Rightarrow> string \<Rightarrow> int \<Rightarrow> real \<Rightarrow> LLMRequest" where
  "applyProviderOverrides req systemPrompt maxTokens temperature =
     (let r1 = (if TrimSpace systemPrompt \<noteq> [] then req\<lparr>rq_SystemPrompt := systemPrompt\<rparr> else req);
          r2 = (if 0 < maxTokens then r1\<lparr>rq_MaxTokens := maxTokens\<rparr> else r1)
      in (if 0 < temperature then r2\<lparr>rq_Temperature := temperature\<rparr> else r2))"

fun Name :: "LLMProvider \<Rightarrow> string" where
  "Name (OpenAI p) = oa_name p"
| "Name (Ollama p) = ol_name p"
| "Name (Bedrock p) = br_name p"

fun Type :: "LLMProvider \<Rightarrow> string" where
  "Type (OpenAI p) = ''openai''"
| "Type (Ollama p) = ''ollama''"
| "Type (Bedrock p) = ''bedrock''"

fun Model :: "LLMProvider \<Rightarrow> string" where
  "Model (OpenAI p) = oa_model p"
| "Model (Ollama p) = ol_model p"
| "Model (Bedrock p) = br_model p"

fun PrepareRequest :: "LLMProvider \<Rightarrow> LLMRequest \<Rightarrow> LLMRequest" where
  "PrepareRequest (OpenAI p) req =
     applyProviderOverrides req (oa_systemPrompt p) (oa_maxTokens p) (oa_temperature p)"
| "PrepareRequest (Ollama p) req =
     applyProviderOverrides req (ol_systemPrompt p) (ol_maxTokens p) (ol_temperature p)"
| "PrepareRequest (Bedrock p) req =
     applyProviderOverrides req (br_systemPrompt p) (br_maxTokens p) (br_temperature p)"

text \<open>The constructors read the process environment through \<open>getenv\<close>.\<close>

definition newOpenAIProvider :: "(string \<Rightarrow> string) \<Rightarrow> BackendConfig \<Rightarrow> configError + LLMProvider" where
  "newOpenAIProvider getenv cfg =
     (if bc_Model cfg = [] then Inl (MissingModel ''openai'' (bc_Name cfg))
      else
        (let apiKey = (if bc_APIKeyEnv cfg \<noteq> [] then TrimSpace (getenv (bc_APIKeyEnv cfg)) else [])
         in if apiKey = [] then Inl (MissingAPIKey (bc_Name cfg) (bc_APIKeyEnv cfg))
            else
              (let baseURL = (if bc_BaseURL cfg = [] then ''https://api.openai.com/v1''
                              else bc_BaseURL cfg)
               in Inr (OpenAI
                    \<lparr>oa_name = bc_Name cfg, oa_model = bc_Model cfg,
                     oa_baseURL = TrimRightSlash baseURL, oa_apiKey = apiKey,
                     oa_systemPrompt = bc_SystemPrompt cfg, oa_maxTokens = bc_MaxTokens cfg,
                     oa_temperature = bc_Temperature cfg\<rparr>))))"

definition newOllamaProvider :: "BackendConfig \<Rightarrow> configError + LLMProvider" where
  "newOllamaProvider cfg =
     (if bc_Model cfg = [] then Inl (MissingModel ''ollama'' (bc_Name cfg))
      else
        (let baseURL = (if bc_BaseURL cfg = [] then ''http://ollama:11434'' else bc_BaseURL cfg)
         in Inr (Ollama
              \<lparr>ol_name = bc_Name cfg, ol_model = bc_Model cfg,
               ol_baseURL = TrimRightSlash baseURL,
               ol_systemPrompt = bc_SystemPrompt cfg, ol_maxTokens = bc_MaxTokens cfg,
               ol_temperature = bc_Temperature cfg\<rparr>)))"

definition newBedrockProvider :: "(string \<Rightarrow> string) \<Rightarrow> BackendConfig \<Rightarrow> configError + LLMProvider" where
  "newBedrockProvider getenv cfg =
     (if bc_Model cfg = [] then Inl (MissingModel ''bedrock'' (bc_Name cfg))
      else
        (let region = (if bc_Region cfg = [] then TrimSpace (getenv ''AWS_REGION'')
                       else bc_Region cfg)
         in if region = [] then Inl (MissingRegion (bc_Name cfg))
            else Inr (Bedrock
                   \<lparr>br_name = bc_Name cfg, br_model = bc_Model cfg, br_region = region,
                    br_systemPrompt = bc_SystemPrompt cfg, br_maxTokens = bc_MaxTokens cfg,
                    br_temperature = bc_Temperature cfg\<rparr>)))"

definition buildProvider :: "(string \<Rightarrow> string) \<Rightarrow> BackendConfig \<Rightarrow> configError + LLMProvider" where
  "buildProvider getenv cfg =
     (if bc_Type cfg = [] \<or> bc_Type cfg = ''openai'' then newOpenAIProvider getenv cfg
      else if bc_Type cfg = ''ollama'' then newOllamaProvider cfg
      else if bc_Type cfg = ''bedrock'' then newBedrockProvider getenv cfg
      else Inl (UnsupportedBackendType (bc_Type cfg)))"

fun buildProviders :: "(string \<Rightarrow> string) \<Rightarrow> BackendConfig list \<Rightarrow> configError + LLMProvider list" where
  "buildProviders getenv [] = Inr []"
| "buildProviders getenv (backend # backends) =
     (case buildProvider getenv backend of
        Inl e \<Rightarrow> Inl e
      | Inr provider \<Rightarrow>
          (case buildProviders getenv backends of
             Inl e \<Rightarrow> Inl e
           | Inr providers \<Rightarrow> Inr (provider # providers)))"

section \<open>Instrumentation\<close>

text \<open>
  The process-wide counters, gauge and histogram. A counter vector is a function from its
  label values to the count; the histogram keeps the observed durations.
\<close>

record metrics =
  alertsReceivedTotal :: "string \<Rightarrow> nat"
  queueDepthGauge :: int
  jobResultsTotal :: "string \<Rightarrow> nat"
  jobDurationSeconds :: "duration list"
  providerRequestsTotal :: "string \<times> string \<Rightarrow> nat"
  prometheusQueriesTotal :: "string \<times> string \<Rightarrow> nat"

definition Inc :: "('k \<Rightarrow> nat) \<Rightarrow> 'k \<Rightarrow> ('k \<Rightarrow> nat)" where
  "Inc c k = c(k := Suc (c k))"

section \<open>The evidence client\<close>

record PrometheusClient =
  pc_baseURL :: string
  pc_timeout :: duration

definition NewPrometheusClient :: "string \<Rightarrow> duration \<Rightarrow> PrometheusClient" where
  "NewPrometheusClient baseURL timeout = \<lparr>pc_baseURL = TrimRightSlash baseURL, pc_timeout = timeout\<rparr>"

text \<open>What the HTTP round trip of one query gives: an error of one of its three stages, or a status code and a body.\<close>

datatype httpResult =
    RequestBuildError string
  | TransportError string
  | BodyReadError string
  | HttpResponse int string

record apiResponse =
  ar_Status :: string
  ar_ResultType :: string
  ar_Result :: string
  ar_ErrorType :: string
  ar_Error :: string

text \<open>The \<open>map[string]any\<close> that \<open>buildLLMRequest\<close> hands to the JSON encoder, one field per key.\<close>

record promptPayload =
  pp_received_at :: gotime
  pp_alert_status :: string
  pp_receiver :: string
  pp_group_key :: string
  pp_group_labels :: strmap
  pp_common_labels :: strmap
  pp_common_annotations :: strmap
  pp_alerts :: "alertSummary list"
  pp_metric_snapshots :: "MetricSnapshot list"
  pp_analysis_window :: string

text \<open>
  Everything outside the program that one job meets: the clock readings of its
  \<open>time.Now()\<close> calls in program order, the metrics backend and the JSON decoders of
  \<open>InstantQuery\<close> (decoded \<open>any\<close> values as \<open>fmt.Sprint\<close> renders them), the JSON encoder
  of the prompt, the backends' answers to \<open>Complete\<close> (by configuration index), the
  measured call durations, the decoder of a backend's answer, and the order in which the
  concurrent backend calls finish.
\<close>

record jobEnv =
  je_start :: gotime
  je_queryNow :: gotime
  je_clampCheck :: gotime
  je_clampNow :: gotime
  je_completed :: gotime
  je_observed :: gotime
  je_fetch :: "string \<Rightarrow> string \<Rightarrow> gotime \<Rightarrow> httpResult"
  je_decodeResponse :: "string \<Rightarrow> string + apiResponse"
  je_decodeScalar :: "string \<Rightarrow> string + string list"
  je_decodeVector :: "string \<Rightarrow> string + (strmap \<times> string list) list"
  je_sprintDuration :: "duration \<Rightarrow> string"
  je_marshalIndent :: "promptPayload \<Rightarrow> string + string"
  je_complete :: "nat \<Rightarrow> LLMProvider \<Rightarrow> LLMRequest \<Rightarrow> string + string"
  je_durationMS :: "nat \<Rightarrow> int"
  je_unmarshalAnalysis :: "string \<Rightarrow> StructuredAnalysis option"
  je_schedule :: "nat list"

definition labelPart :: "string \<times> string \<Rightarrow> string" where
  "labelPart kv = fst kv @ ''='' @ snd kv"

definition seriesPart :: "MetricSeries \<Rightarrow> string" where
  "seriesPart s =
     (let labelParts = sort (map labelPart (filter (\<lambda>kv. fst kv \<noteq> ''__name__'') (se_Labels s)))
      in if labelParts = [] then se_Value s
         else Join labelParts '','' @ '' => '' @ se_Value s)"

definition summarizeSeries :: "MetricSeries list \<Rightarrow> string" where
  "summarizeSeries series =
     (if series = [] then ''no series'' else Join (map seriesPart series) ''; '')"

definition vectorSeries :: "strmap \<times> string list \<Rightarrow> MetricSeries" where
  "vectorSeries entry =
     \<lparr>se_Labels = fst entry,
      se_Value = (if length (snd entry) = 2 then snd entry ! 1 else [])\<rparr>"

definition InstantQuery ::
  "jobEnv \<Rightarrow> PrometheusClient \<Rightarrow> MetricQuery \<Rightarrow> gotime \<Rightarrow> string + MetricSnapshot" where
  "InstantQuery env p query queryTime =
     (case je_fetch env (pc_baseURL p) (mq_Query query) queryTime of
        RequestBuildError e \<Rightarrow> Inl (''build Prometheus request: '' @ e)
      | TransportError e \<Rightarrow> Inl (''query Prometheus: '' @ e)
      | BodyReadError e \<Rightarrow> Inl (''read Prometheus response: '' @ e)
      | HttpResponse code body \<Rightarrow>
          if 300 \<le> code
          then Inl (''Prometheus status '' @ showInt code @ '': '' @ TrimSpace body)
          else
            (case je_decodeResponse env body of
               Inl e \<Rightarrow> Inl (''decode Prometheus response: '' @ e)
             | Inr apiResp \<Rightarrow>
                 if ar_Status apiResp \<noteq> ''success''
                 then Inl (''Prometheus '' @ ar_ErrorType apiResp @ '': '' @ ar_Error apiResp)
                 else
                   (let snapshot = zeroMetricSnapshot
                          \<lparr>ms_Name := mq_Name query, ms_Description := mq_Description query,
                           ms_Query := mq_Query query, ms_ResultType := ar_ResultType apiResp\<rparr>
                    in if ar_ResultType apiResp = ''scalar''
                       then
                         (case je_decodeScalar env (ar_Result apiResp) of
                            Inl e \<Rightarrow> Inl (''decode scalar result: '' @ e)
                          | Inr raw \<Rightarrow>
                              if length raw = 2
                              then Inr (snapshot
                                     \<lparr>ms_Series := [\<lparr>se_Labels = [], se_Value = raw ! 1\<rparr>],
                                      ms_Summary := ''value='' @ raw ! 1\<rparr>)
                              else Inr snapshot)
                       else if ar_ResultType apiResp = ''vector''
                       then
                         (case je_decodeVector env (ar_Result apiResp) of
                            Inl e \<Rightarrow> Inl (''decode vector result: '' @ e)
                          | Inr entries \<Rightarrow>
                              (let series = ms_Series snapshot @ map vectorSeries entries
                               in Inr (snapshot
                                     \<lparr>ms_Series := series, ms_Summary := summarizeSeries series\<rparr>)))
                       else Inr (snapshot\<lparr>ms_Summary := ar_Result apiResp\<rparr>))))"

section \<open>Time anchoring and evidence collection\<close>

fun earliestLoop :: "gotime \<Rightarrow> GrafanaAlert list \<Rightarrow> gotime" where
  "earliestLoop earliest [] = earliest"
| "earliestLoop earliest (alert # alerts) =
     earliestLoop
       (if al_StartsAt alert \<noteq> 0 \<and> al_StartsAt alert < earliest then al_StartsAt alert
        else earliest)
       alerts"

definition earliestAlertTime :: "GrafanaWebhookPayload \<Rightarrow> gotime \<Rightarrow> gotime" where
  "earliestAlertTime payload fallback = earliestLoop fallback (pl_Alerts payload)"

text \<open>
  The time at which \<open>collectMetrics\<close> queries. The three clock readings are those of
  its three \<open>time.Now()\<close> calls; without alerts only the first is made.
\<close>

definition queryTimeOf :: "Config \<Rightarrow> jobEnv \<Rightarrow> analysisJob \<Rightarrow> gotime" where
  "queryTimeOf cfg env job =
     (if pl_Alerts (job_Payload job) \<noteq> []
      then
        (let earliest = earliestAlertTime (job_Payload job) (je_queryNow env);
             queryTime = earliest + cfg_PrometheusLookback cfg
         in if je_clampCheck env < queryTime then je_clampNow env else queryTime)
      else je_queryNow env)"

definition errorSnapshot :: "MetricQuery \<Rightarrow> string \<Rightarrow> MetricSnapshot" where
  "errorSnapshot query err =
     zeroMetricSnapshot
       \<lparr>ms_Name := mq_Name query, ms_Description := mq_Description query,
        ms_Query := mq_Query query, ms_Error := err\<rparr>"

text \<open>The loop of \<open>collectMetrics\<close> over the configured queries.\<close>

fun queryLoop ::
  "jobEnv \<Rightarrow> PrometheusClient \<Rightarrow> gotime \<Rightarrow> MetricQuery list \<Rightarrow> MetricSnapshot list \<Rightarrow> metrics
     \<Rightarrow> MetricSnapshot list \<times> metrics" where
  "queryLoop env p queryTime [] snapshots m = (snapshots, m)"
| "queryLoop env p queryTime (query # queries) snapshots m =
     (case InstantQuery env p query queryTime of
        Inl err \<Rightarrow>
          queryLoop env p queryTime queries (snapshots @ [errorSnapshot query err])
            (m\<lparr>prometheusQueriesTotal := Inc (prometheusQueriesTotal m) (mq_Name query, ''error'')\<rparr>)
      | Inr snapshot \<Rightarrow>
          queryLoop env p queryTime queries (snapshots @ [snapshot])
            (m\<lparr>prometheusQueriesTotal := Inc (prometheusQueriesTotal m) (mq_Name query, ''success'')\<rparr>))"

text \<open>
  \<open>collectMetrics\<close> returns the snapshots and its error value (\<open>None\<close> is Go's \<open>nil\<close>
  error); a \<open>nil\<close> slice and an empty slice are both the empty list.
\<close>

definition collectMetrics ::
  "Config \<Rightarrow> PrometheusClient \<Rightarrow> jobEnv \<Rightarrow> analysisJob \<Rightarrow> metrics
     \<Rightarrow> (MetricSnapshot list \<times> string option) \<times> metrics" where
  "collectMetrics cfg prom env job m =
     (if TrimSpace (cfg_PrometheusURL cfg) = [] then (([], None), m)
      else
        (let (snapshots, m') = queryLoop env prom (queryTimeOf cfg env job) (cfg_MetricQueries cfg) [] m
         in ((snapshots, None), m')))"

section \<open>The prompt builder\<close>

definition summarizeAlerts :: "GrafanaAlert list \<Rightarrow> alertSummary list" where
  "summarizeAlerts alerts =
     map (\<lambda>alert. \<lparr>su_Status = al_Status alert, su_Labels = al_Labels alert,
                    su_Annotations = al_Annotations alert, su_StartsAt = al_StartsAt alert,
                    su_EndsAt = al_EndsAt alert\<rparr>) alerts"

definition defaultSystemPrompt :: string where
  \<open>defaultSystemPrompt =
     ''You analyze edge network alerts using only the provided evidence.\<newline>'' @
     ''Return strict JSON with this shape:\<newline>'' @
     ''{\<newline>'' @
     ''  "summary": "short incident summary",\<newline>'' @
     ''  "likely_issue": "most likely root cause",\<newline>'' @
     ''  "confidence": 0.0,\<newline>'' @
     ''  "evidence": ["bullet evidence"],\<newline>'' @
     ''  "potential_fix": ["ordered remediation ideas"],\<newline>'' @
     ''  "next_checks": ["additional checks if evidence is insufficient"]\<newline>'' @
     ''}\<newline>'' @
     ''Do not invent radio-level evidence if it is not present in the metrics.''\<close>

definition userPromptIntro :: string where
  "userPromptIntro =
     ''Evaluate this Grafana alert incident and summarize the issue, likely cause, '' @
     ''and potential fix using only the evidence below.\<newline>\<newline>''"

definition buildLLMRequest ::
  "jobEnv \<Rightarrow> analysisJob \<Rightarrow> MetricSnapshot list \<Rightarrow> duration \<Rightarrow> string + LLMRequest" where
  "buildLLMRequest env job metricSnapshots lookbackDuration =
     (let payload =
            \<lparr>pp_received_at = job_ReceivedAt job,
             pp_alert_status = pl_Status (job_Payload job),
             pp_receiver = pl_Receiver (job_Payload job),
             pp_group_key = pl_GroupKey (job_Payload job),
             pp_group_labels = pl_GroupLabels (job_Payload job),
             pp_common_labels = pl_CommonLabels (job_Payload job),
             pp_common_annotations = pl_CommonAnnotations (job_Payload job),
             pp_alerts = summarizeAlerts (pl_Alerts (job_Payload job)),
             pp_metric_snapshots = metricSnapshots,
             pp_analysis_window = je_sprintDuration env lookbackDuration\<rparr>
      in case je_marshalIndent env payload of
           Inl err \<Rightarrow> Inl (''marshal prompt payload: '' @ err)
         | Inr body \<Rightarrow>
             Inr \<lparr>rq_SystemPrompt = defaultSystemPrompt,
                  rq_UserPrompt = userPromptIntro @ body,
                  rq_MaxTokens = 900,
                  rq_Temperature = 2 / 10\<rparr>)"

section \<open>The fan-out coordinator\<close>

text \<open>
  What the goroutine started for configuration index \<open>idx\<close> computes: its result and the
  label values of the counter it increments.
\<close>

definition providerCall ::
  "jobEnv \<Rightarrow> LLMRequest \<Rightarrow> nat \<Rightarrow> LLMProvider \<Rightarrow> ProviderResult \<times> (string \<times> string)" where
  "providerCall env request idx provider =
     (let result = zeroProviderResult
            \<lparr>pr_Provider := Name provider, pr_Type := Type provider,
             pr_Model := Model provider, pr_DurationMS := je_durationMS env idx\<rparr>
      in case je_complete env idx provider (PrepareRequest provider request) of
           Inl err \<Rightarrow> (result\<lparr>pr_Error := err\<rparr>, (Name provider, ''error''))
         | Inr response \<Rightarrow>
             (let result1 = result\<lparr>pr_Response := response\<rparr>;
                  result2 =
                    (case je_unmarshalAnalysis env response of
                       None \<Rightarrow> result1
                     | Some parsed \<Rightarrow>
                         if sa_Summary parsed \<noteq> [] then result1\<lparr>pr_Parsed := Some parsed\<rparr>
                         else result1)
              in (result2, (Name provider, ''success''))))"

text \<open>
  The effect of one goroutine finishing on the shared state: it stores its result in its
  own slot of \<open>results\<close> and increments its counter. The slot is written by no other
  goroutine and increments commute, so taking the two effects as one step leaves the
  state after \<open>wg.Wait()\<close> as every interleaving has it. Only the indices of the
  provider list have a goroutine.
\<close>

definition goroutine ::
  "jobEnv \<Rightarrow> LLMProvider list \<Rightarrow> LLMRequest \<Rightarrow> nat
     \<Rightarrow> ProviderResult list \<times> metrics \<Rightarrow> ProviderResult list \<times> metrics" where
  "goroutine env providers request idx st =
     (if idx < length providers
      then
        (let (result, key) = providerCall env request idx (providers ! idx)
         in ((fst st)[idx := result],
             (snd st)\<lparr>providerRequestsTotal := Inc (providerRequestsTotal (snd st)) key\<rparr>))
      else st)"

text \<open>
  \<open>wg.Wait()\<close> returns once every goroutine has finished; the schedule \<open>je_schedule\<close>
  is the order in which they did, a permutation of the configuration indices.
\<close>

definition completionOrder :: "nat \<Rightarrow> nat list \<Rightarrow> bool" where
  "completionOrder n sched \<longleftrightarrow> distinct sched \<and> set sched = {0..<n}"

definition promptBuilderFailure :: "string \<Rightarrow> ProviderResult" where
  "promptBuilderFailure err =
     zeroProviderResult
       \<lparr>pr_Provider := ''prompt-builder'', pr_Type := ''internal'', pr_Error := err\<rparr>"

definition runProviders ::
  "Config \<Rightarrow> LLMProvider list \<Rightarrow> jobEnv \<Rightarrow> analysisJob \<Rightarrow> MetricSnapshot list \<Rightarrow> metrics
     \<Rightarrow> ProviderResult list \<times> metrics" where
  "runProviders cfg providers env job metricSnapshots m =
     (case buildLLMRequest env job metricSnapshots (cfg_PrometheusLookback cfg) of
        Inl err \<Rightarrow> ([promptBuilderFailure err], m)
      | Inr request \<Rightarrow>
          fold (goroutine env providers request) (je_schedule env)
            (replicate (length providers) zeroProviderResult, m))"

section \<open>The server: admission, workers and the per-job pipeline\<close>

text \<open>
  The job channel: its capacity, the buffered jobs (oldest first) and the number of
  workers blocked in a receive. A non-blocking send hands the job to a blocked
  receiver if there is one, else buffers it if there is room, else fails.
\<close>

record jobChan =
  ch_cap :: nat
  ch_buf :: "analysisJob list"
  ch_recvq :: nat

text \<open>The result of a successful send: the channel, and the job when it went straight to a blocked worker.\<close>

definition trySend :: "jobChan \<Rightarrow> analysisJob \<Rightarrow> (jobChan \<times> analysisJob option) option" where
  "trySend ch job =
     (if 0 < ch_recvq ch then Some (ch\<lparr>ch_recvq := ch_recvq ch - 1\<rparr>, Some job)
      else if length (ch_buf ch) < ch_cap ch then Some (ch\<lparr>ch_buf := ch_buf ch @ [job]\<rparr>, None)
      else None)"

record server =
  sv_cfg :: Config
  sv_prom :: PrometheusClient
  sv_providers :: "LLMProvider list"
  sv_queue :: jobChan
  sv_store :: analysisStore

text \<open>
  The start of \<open>main\<close>, up to the server it serves with: the configuration is loaded,
  the providers are built, and the server gets its client, its empty queue and its empty
  store. A failure of either of the first two ends the process; \<open>make\<close> panics for a
  negative queue size. This is the only place where a server is made.
\<close>

datatype startupFailure =
    ConfigFailure configError
  | MakeChanPanic int

definition mainServer :: "sysEnv \<Rightarrow> startupFailure + server" where
  "mainServer sys =
     (case loadConfig sys of
        Inl e \<Rightarrow> Inl (ConfigFailure e)
      | Inr cfg \<Rightarrow>
          (case buildProviders (os_Getenv sys) (cfg_Backends cfg) of
             Inl e \<Rightarrow> Inl (ConfigFailure e)
           | Inr providers \<Rightarrow>
               if cfg_JobQueueSize cfg < 0 then Inl (MakeChanPanic (cfg_JobQueueSize cfg))
               else Inr \<lparr>sv_cfg = cfg,
                         sv_prom = NewPrometheusClient (cfg_PrometheusURL cfg)
                                     (cfg_PrometheusTimeout cfg),
                         sv_providers = providers,
                         sv_queue = \<lparr>ch_cap = nat (cfg_JobQueueSize cfg), ch_buf = [],
                                     ch_recvq = 0\<rparr>,
                         sv_store = newAnalysisStore (cfg_MaxStoredAnalyses cfg)\<rparr>))"

definition providerNames :: "LLMProvider list \<Rightarrow> string list" where
  "providerNames providers = sort (map Name providers)"

definition sanitizeID :: "string \<Rightarrow> string" where
  "sanitizeID v =
     (let out = map (\<lambda>c. if c \<in> {CHR ''/'', CHR '':'', CHR '' '', CHR 0x0A, CHR 0x09}
                          then CHR ''-'' else c) (TrimSpace v)
      in if out = [] then ''alert'' else out)"

text \<open>\<open>Time.UnixNano\<close>: nanoseconds since 1970, which is 62135596800 seconds after the zero instant.\<close>

definition UnixNano :: "gotime \<Rightarrow> int" where
  "UnixNano t = t - 62135596800 * 1000000000"

record httpRequest =
  hr_Method :: string
  hr_Body :: string

text \<open>What one request meets: the JSON decoder of the body and the two clock readings.\<close>

record requestEnv =
  re_decodePayload :: "string \<Rightarrow> GrafanaWebhookPayload option"
  re_idNow :: gotime
  re_receivedNow :: gotime

datatype replyBody =
    PlainText string
  | Queued string nat "string list"

record httpReply =
  rp_status :: int
  rp_body :: replyBody

text \<open>
  The handler returns its reply, the server and the instrumentation after the request,
  and the job when the send handed it straight to a blocked worker.
\<close>

definition handleGrafanaWebhook ::
  "server \<Rightarrow> requestEnv \<Rightarrow> httpRequest \<Rightarrow> metrics
     \<Rightarrow> httpReply \<times> server \<times> metrics \<times> analysisJob option" where
  "handleGrafanaWebhook s env r m =
     (if hr_Method r \<noteq> ''POST''
      then (\<lparr>rp_status = 405, rp_body = PlainText ''method not allowed''\<rparr>, s, m, None)
      else
        (case re_decodePayload env (hr_Body r) of
           None \<Rightarrow> (\<lparr>rp_status = 400, rp_body = PlainText ''invalid json body''\<rparr>, s, m, None)
         | Some payload \<Rightarrow>
             (let m1 = m\<lparr>alertsReceivedTotal := Inc (alertsReceivedTotal m) (pl_Status payload)\<rparr>;
                  job = \<lparr>job_ID = showInt (UnixNano (re_idNow env)) @ ''-''
                                     @ sanitizeID (pl_GroupKey payload),
                         job_ReceivedAt = re_receivedNow env,
                         job_Payload = payload\<rparr>
              in case trySend (sv_queue s) job of
                   Some (q, handed) \<Rightarrow>
                     (\<lparr>rp_status = 202,
                       rp_body = Queued (job_ID job) (length (pl_Alerts payload))
                                   (providerNames (sv_providers s))\<rparr>,
                      s\<lparr>sv_queue := q\<rparr>,
                      m1\<lparr>queueDepthGauge := queueDepthGauge m1 + 1\<rparr>,
                      handed)
                 | None \<Rightarrow>
                     (\<lparr>rp_status = 503, rp_body = PlainText ''queue full''\<rparr>,
                      s,
                      m1\<lparr>jobResultsTotal := Inc (jobResultsTotal m1) ''queue_full''\<rparr>,
                      None))))"

definition noBackendsResult :: ProviderResult where
  "noBackendsResult =
     zeroProviderResult
       \<lparr>pr_Provider := ''none'', pr_Type := ''none'', pr_Error := ''no LLM backends configured''\<rparr>"

text \<open>
  \<open>processJob\<close> up to, and without, the call of \<open>s.store.add\<close>: the record it has
  assembled and the instrumentation.
\<close>

definition assembleRecord :: "server \<Rightarrow> jobEnv \<Rightarrow> analysisJob \<Rightarrow> metrics \<Rightarrow> analysisRecord \<times> metrics" where
  "assembleRecord s env job m =
     (let record0 =
            \<lparr>rec_ID = job_ID job, rec_ReceivedAt = job_ReceivedAt job, rec_CompletedAt = 0,
             rec_AlertStatus = pl_Status (job_Payload job),
             rec_Receiver = pl_Receiver (job_Payload job),
             rec_GroupKey = pl_GroupKey (job_Payload job),
             rec_CommonLabels = pl_CommonLabels (job_Payload job),
             rec_CommonAnnots = pl_CommonAnnotations (job_Payload job),
             rec_AlertSummaries = summarizeAlerts (pl_Alerts (job_Payload job)),
             rec_Metrics = [], rec_Providers = [], rec_Error = []\<rparr>;
          ((metricSnapshots, err), m1) = collectMetrics (sv_cfg s) (sv_prom s) env job m;
          record1 = (case err of Some e \<Rightarrow> record0\<lparr>rec_Error := e\<rparr> | None \<Rightarrow> record0);
          record2 = record1\<lparr>rec_Metrics := metricSnapshots\<rparr>;
          (providerResults, m2) =
            (if sv_providers s = [] then ([noBackendsResult], m1)
             else runProviders (sv_cfg s) (sv_providers s) env job metricSnapshots m1);
          record3 = record2\<lparr>rec_Providers := providerResults, rec_CompletedAt := je_completed env\<rparr>;
          m3 = m2\<lparr>jobDurationSeconds := jobDurationSeconds m2 @ [je_observed env - je_start env],
                  jobResultsTotal := Inc (jobResultsTotal m2) ''processed''\<rparr>
      in (record3, m3))"

definition processJob ::
  "server \<Rightarrow> jobEnv \<Rightarrow> nat \<Rightarrow> analysisJob \<Rightarrow> metrics \<Rightarrow> panic + server \<times> metrics" where
  "processJob s env workerID job m =
     (let (record, m') = assembleRecord s env job m
      in case add (sv_store s) record of
           Inl p \<Rightarrow> Inl p
         | Inr store \<Rightarrow> Inr (s\<lparr>sv_store := store\<rparr>, m'))"

text \<open>
  The worker loop over the jobs it receives from the channel, each with the environment
  it runs in. Nothing in the loop recovers a panic: a panic of \<open>processJob\<close> ends the
  worker (and, unrecovered in a goroutine, the process), and the jobs after it are not
  processed by it.
\<close>

fun worker ::
  "server \<Rightarrow> nat \<Rightarrow> (analysisJob \<times> jobEnv) list \<Rightarrow> metrics \<Rightarrow> panic + server \<times> metrics" where
  "worker s ident [] m = Inr (s, m)"
| "worker s ident ((job, env) # jobs) m =
     (case processJob s env ident job (m\<lparr>queueDepthGauge := queueDepthGauge m - 1\<rparr>) of
        Inl p \<Rightarrow> Inl p
      | Inr (s', m') \<Rightarrow> worker s' ident jobs m')"

section \<open>The time anchor as the specification words it\<close>

text \<open>The query time as the specification words it, for comparison with \<open>queryTimeOf\<close>.\<close>

definition spec_queryTime :: "Config \<Rightarrow> gotime \<Rightarrow> analysisJob \<Rightarrow> gotime" where
  "spec_queryTime cfg now job =
     (let starts = filter (\<lambda>t. t \<noteq> 0) (map al_StartsAt (pl_Alerts (job_Payload job)));
          earliest = (if starts = [] then job_ReceivedAt job else Min (set starts));
          queryTime = earliest + cfg_PrometheusLookback cfg
      in if now < queryTime then now else queryTime)"

section \<open>Sample data\<close>

text \<open>Concrete values at which the theorems below are instantiated.\<close>

definition sampleRecord :: "string \<Rightarrow> analysisRecord" where
  "sampleRecord i =
     \<lparr>rec_ID = i, rec_ReceivedAt = 0, rec_CompletedAt = 0,
      rec_AlertStatus = [], rec_Receiver = [], rec_GroupKey = [], rec_CommonLabels = [],
      rec_CommonAnnots = [], rec_AlertSummaries = [],
      rec_Metrics = [], rec_Providers = [], rec_Error = []\<rparr>"

definition sampleAlert :: "gotime \<Rightarrow> GrafanaAlert" where
  "sampleAlert startsAt =
     \<lparr>al_Status = ''firing'', al_Labels = [(''alertname'', ''WifiDown'')], al_Annotations = [],
      al_StartsAt = startsAt, al_EndsAt = 0, al_GeneratorURL = [], al_Fingerprint = [],
      al_SilenceURL = [], al_DashboardURL = [], al_PanelURL = []\<rparr>"

definition samplePayload :: "GrafanaAlert list \<Rightarrow> GrafanaWebhookPayload" where
  "samplePayload alerts =
     \<lparr>pl_Receiver = ''edge'', pl_Status = ''firing'', pl_Alerts = alerts, pl_GroupLabels = [],
      pl_CommonLabels = [], pl_CommonAnnotations = [], pl_ExternalURL = [], pl_Version = ''1'',
      pl_GroupKey = ''wifi down'', pl_TruncatedAlerts = 0\<rparr>"

definition sampleJob :: "string \<Rightarrow> gotime \<Rightarrow> GrafanaAlert list \<Rightarrow> analysisJob" where
  "sampleJob ident receivedAt alerts =
     \<lparr>job_ID = ident, job_ReceivedAt = receivedAt, job_Payload = samplePayload alerts\<rparr>"

definition sampleQueries :: "MetricQuery list" where
  "sampleQueries =
     [\<lparr>mq_Name = ''jitter'', mq_Description = ''Average jitter'', mq_Query = ''avg(jitter)''\<rparr>,
      \<lparr>mq_Name = ''loss'', mq_Description = ''Packet loss'', mq_Query = ''sum(loss)''\<rparr>]"

definition sampleConfig :: "string \<Rightarrow> duration \<Rightarrow> int \<Rightarrow> Config" where
  "sampleConfig url lookback maxStored =
     \<lparr>cfg_Port = 9094, cfg_PrometheusURL = url, cfg_PrometheusLookback = lookback,
      cfg_PrometheusTimeout = 10, cfg_LLMTimeout = 30, cfg_JobQueueSize = 1,
      cfg_WorkerCount = 1, cfg_MaxStoredAnalyses = maxStored, cfg_Backends = [],
      cfg_MetricQueries = sampleQueries\<rparr>"

definition sampleMetrics :: metrics where
  "sampleMetrics =
     \<lparr>alertsReceivedTotal = (\<lambda>k. 0), queueDepthGauge = 0, jobResultsTotal = (\<lambda>k. 0),
      jobDurationSeconds = [], providerRequestsTotal = (\<lambda>k. 0),
      prometheusQueriesTotal = (\<lambda>k. 0)\<rparr>"

definition sampleBackend :: BackendConfig where
  "sampleBackend =
     \<lparr>bc_Name = ''local'', bc_Type = ''ollama'', bc_Model = ''llama3'', bc_BaseURL = [],
      bc_APIKeyEnv = [], bc_Region = [], bc_SystemPrompt = [], bc_MaxTokens = 0,
      bc_Temperature = 1 / 2\<rparr>"

definition sampleOllama :: LLMProvider where
  "sampleOllama =
     Ollama \<lparr>ol_name = ''local'', ol_model = ''llama3'', ol_baseURL = ''http://ollama:11434'',
             ol_systemPrompt = [], ol_maxTokens = 0, ol_temperature = 1 / 2\<rparr>"

definition sampleBedrock :: LLMProvider where
  "sampleBedrock =
     Bedrock \<lparr>br_name = ''cloud'', br_model = ''claude'', br_region = ''us-east-1'',
              br_systemPrompt = [], br_maxTokens = 900, br_temperature = 2 / 10\<rparr>"

definition sampleRequest :: LLMRequest where
  "sampleRequest =
     \<lparr>rq_SystemPrompt = ''sys'', rq_UserPrompt = ''user'', rq_MaxTokens = 900,
      rq_Temperature = 2 / 10\<rparr>"

definition sampleAnalysis :: "string \<Rightarrow> StructuredAnalysis" where
  "sampleAnalysis summary =
     \<lparr>sa_Summary = summary, sa_LikelyIssue = [], sa_Confidence = 1 / 2, sa_Evidence = [],
      sa_PotentialFix = [], sa_NextChecks = []\<rparr>"

text \<open>
  An environment in which the first metric query meets a transport error and the second
  a scalar answer, the prompt encodes, backend 0 answers with an analysis, backend 1
  with an empty summary, backend 2 with text that is no JSON, any further backend times
  out, and backend 1 finishes before backend 0.
\<close>

definition sampleEnv :: jobEnv where
  "sampleEnv =
     \<lparr>je_start = 200, je_queryNow = 200, je_clampCheck = 201, je_clampNow = 202,
      je_completed = 230, je_observed = 231,
      je_fetch = (\<lambda>baseURL query t.
         if query = ''avg(jitter)'' then TransportError ''connection refused''
         else HttpResponse 200 ''scalar-body''),
      je_decodeResponse = (\<lambda>body.
         Inr \<lparr>ar_Status = ''success'', ar_ResultType = ''scalar'', ar_Result = ''[1,3]'',
              ar_ErrorType = [], ar_Error = []\<rparr>),
      je_decodeScalar = (\<lambda>raw. Inr [''1'', ''3'']),
      je_decodeVector = (\<lambda>raw. Inr []),
      je_sprintDuration = (\<lambda>d. ''30m0s''),
      je_marshalIndent = (\<lambda>payload. Inr ''{}''),
      je_complete = (\<lambda>idx provider request.
         if idx = 0 then Inr ''summary-x''
         else if idx = 1 then Inr ''summary-empty''
         else if idx = 2 then Inr ''plain text''
         else Inl ''context deadline exceeded''),
      je_durationMS = (\<lambda>idx. 7),
      je_unmarshalAnalysis = (\<lambda>response.
         if response = ''summary-x'' then Some (sampleAnalysis ''x'')
         else if response = ''summary-empty'' then Some (sampleAnalysis [])
         else None),
      je_schedule = [1, 0]\<rparr>"

definition sampleServer :: "string \<Rightarrow> int \<Rightarrow> LLMProvider list \<Rightarrow> jobChan \<Rightarrow> server" where
  "sampleServer url maxStored providers queue =
     \<lparr>sv_cfg = sampleConfig url 30 maxStored,
      sv_prom = NewPrometheusClient url 10,
      sv_providers = providers,
      sv_queue = queue,
      sv_store = newAnalysisStore maxStored\<rparr>"

definition sampleRequestEnv :: requestEnv where
  "sampleRequestEnv =
     \<lparr>re_decodePayload = (\<lambda>body. if body = ''payload'' then Some (samplePayload [sampleAlert 50]) else None),
      re_idNow = 62135596800 * 1000000000 + 7, re_receivedNow = 62135596800 * 1000000000 + 8\<rparr>"

definition samplePost :: httpRequest where
  "samplePost = \<lparr>hr_Method = ''POST'', hr_Body = ''payload''\<rparr>"

definition fullQueue :: jobChan where
  "fullQueue = \<lparr>ch_cap = 1, ch_buf = [sampleJob ''j0'' 90 []], ch_recvq = 0\<rparr>"

definition freeQueue :: jobChan where
  "freeQueue = \<lparr>ch_cap = 1, ch_buf = [], ch_recvq = 0\<rparr>"

definition failingEnv :: jobEnv where
  "failingEnv = sampleEnv\<lparr>je_marshalIndent := (\<lambda>payload. Inl ''json: unsupported value'')\<rparr>"

text \<open>A start with no environment variable set and a decoder that reads the default backend list.\<close>

definition sampleSys :: sysEnv where
  "sampleSys =
     \<lparr>os_Getenv = (\<lambda>key. []), os_Atoi = (\<lambda>v. None), os_ParseDuration = (\<lambda>v. None),
      os_unmarshalBackends = (\<lambda>raw. if raw = ''[]'' then Inr [] else Inl ''invalid character''),
      os_unmarshalQueries = (\<lambda>raw. Inl ''invalid character''),
      os_ToLower = (\<lambda>v. v)\<rparr>"

section \<open>The record store: capacity and order\<close>

lemma add_ok:
  "0 \<le> st_max s \<Longrightarrow> add s r = Inr (s\<lparr>st_items := take (nat (st_max s)) (r # st_items s)\<rparr>)"
  by (auto simp: add_def Let_def)

lemma add_panics:
  "st_max s < 0 \<Longrightarrow> add s r = Inl (SliceBoundsOutOfRange (st_max s))"
  by (auto simp: add_def Let_def)

lemma take_take_snoc:
  "take n (xs @ [r] @ take n ys) = take n (xs @ r # ys)"
  by (induction xs arbitrary: n) (auto simp: take_Cons')

lemma addAll_ok:
  "0 \<le> st_max s \<Longrightarrow> int (length (st_items s)) \<le> st_max s \<Longrightarrow>
   addAll s rs = Inr (s\<lparr>st_items := take (nat (st_max s)) (rev rs @ st_items s)\<rparr>)"
proof (induction rs arbitrary: s)
  case Nil
  then show ?case by simp
next
  case (Cons r rs)
  let ?s' = "s\<lparr>st_items := take (nat (st_max s)) (r # st_items s)\<rparr>"
  have a: "add s r = Inr ?s'" using Cons.prems(1) by (rule add_ok)
  have l: "int (length (st_items ?s')) \<le> st_max ?s'" using Cons.prems(1) by simp
  have "addAll ?s' rs = Inr (?s'\<lparr>st_items := take (nat (st_max ?s')) (rev rs @ st_items ?s')\<rparr>)"
    using Cons.IH[of ?s'] Cons.prems(1) l by simp
  then show ?case using a take_take_snoc[of "nat (st_max s)" "rev rs" r "st_items s"]
    by simp
qed

lemma take_Cons_butlast:
  "length xs = n \<Longrightarrow> 0 < n \<Longrightarrow> take n (r # xs) = r # butlast xs"
  by (cases n) (simp_all add: butlast_conv_take)

text \<open>
  C4. A new store of capacity \<open>N \<ge> 1\<close> that receives more than \<open>N\<close> records lists
  exactly \<open>N\<close> of them afterwards: the \<open>N\<close> added last, newest first. And every
  \<open>add\<close> on a store of capacity \<open>N\<close> holding at most \<open>N\<close> records keeps that bound,
  puts the new record first and, when the store was full, drops only the last (oldest)
  record.
\<close>

theorem store_capacity_law:
  assumes "1 \<le> N" and "nat N < length rs"
  shows "(\<exists>s'. addAll (newAnalysisStore N) rs = Inr s' \<and>
            list_store s' = take (nat N) (rev rs) \<and>
            int (length (list_store s')) = N) \<and>
         (\<forall>s r. st_max s = N \<and> int (length (st_items s)) \<le> N \<longrightarrow>
            (\<exists>s'. add s r = Inr s' \<and> st_max s' = N \<and>
               int (length (list_store s')) \<le> N \<and>
               list_store s' =
                 (if int (length (st_items s)) < N then r # list_store s
                  else r # butlast (list_store s))))"
proof (intro conjI allI impI)
  have "addAll (newAnalysisStore N) rs =
          Inr ((newAnalysisStore N)\<lparr>st_items := take (nat N) (rev rs @ [])\<rparr>)"
    using addAll_ok[of "newAnalysisStore N" rs] assms(1) by (simp add: newAnalysisStore_def)
  moreover have "int (length (take (nat N) (rev rs))) = N" using assms by simp
  ultimately show "\<exists>s'. addAll (newAnalysisStore N) rs = Inr s' \<and>
            list_store s' = take (nat N) (rev rs) \<and>
            int (length (list_store s')) = N"
    by (simp add: list_store_def)
next
  fix s :: analysisStore and r :: analysisRecord
  assume h: "st_max s = N \<and> int (length (st_items s)) \<le> N"
  let ?s' = "s\<lparr>st_items := take (nat N) (r # st_items s)\<rparr>"
  have a: "add s r = Inr ?s'" using add_ok[of s r] h assms(1) by simp
  have b: "int (length (st_items ?s')) \<le> N" using assms(1) by simp
  have c: "st_items ?s' = (if int (length (st_items s)) < N then r # st_items s
                  else r # butlast (st_items s))"
  proof (cases "int (length (st_items s)) < N")
    case True
    then show ?thesis by simp
  next
    case False
    with h have "length (st_items s) = nat N" by linarith
    then show ?thesis using False assms(1) take_Cons_butlast[of "st_items s" "nat N" r] by simp
  qed
  show "\<exists>s'. add s r = Inr s' \<and> st_max s' = N \<and>
               int (length (list_store s')) \<le> N \<and>
               list_store s' =
                 (if int (length (st_items s)) < N then r # list_store s
                  else r # butlast (list_store s))"
    using a b c h by (simp add: list_store_def)
qed

theorem store_capacity_law_witness:
  "(1::int) \<le> 2 \<and> nat 2 < length [sampleRecord ''a'', sampleRecord ''b'', sampleRecord ''c''] \<and>
   (\<exists>s'. addAll (newAnalysisStore 2) [sampleRecord ''a'', sampleRecord ''b'', sampleRecord ''c'']
            = Inr s' \<and>
      list_store s' = [sampleRecord ''c'', sampleRecord ''b'']) \<and>
   (\<exists>s'. add \<lparr>st_max = 2, st_items = [sampleRecord ''b'', sampleRecord ''a'']\<rparr> (sampleRecord ''c'')
            = Inr s' \<and>
      list_store s' = [sampleRecord ''c'', sampleRecord ''b''])"
  using store_capacity_law[of 2 "[sampleRecord ''a'', sampleRecord ''b'', sampleRecord ''c'']"]
  by (simp add: newAnalysisStore_def add_def list_store_def)

section \<open>Backend adapters: request overrides\<close>

lemma TrimSpace_Nil: "TrimSpace [] = []" by (simp add: TrimSpace_def)

lemma TrimSpace_nonempty: "TrimSpace s \<noteq> [] \<Longrightarrow> s \<noteq> []"
  using TrimSpace_Nil by auto

lemma applyProviderOverrides_fields:
  "rq_SystemPrompt (applyProviderOverrides req sp mt te) = (if TrimSpace sp \<noteq> [] then sp else rq_SystemPrompt req)"
  "rq_UserPrompt (applyProviderOverrides req sp mt te) = rq_UserPrompt req"
  "rq_MaxTokens (applyProviderOverrides req sp mt te) = (if 0 < mt then mt else rq_MaxTokens req)"
  "rq_Temperature (applyProviderOverrides req sp mt te) = (if 0 < te then te else rq_Temperature req)"
  by (simp_all add: applyProviderOverrides_def Let_def)

lemma buildProvider_PrepareRequest:
  assumes "buildProvider getenv cfg = Inr p"
  shows "PrepareRequest p req =
           applyProviderOverrides req (bc_SystemPrompt cfg) (bc_MaxTokens cfg) (bc_Temperature cfg)"
  using assms
  by (auto simp: buildProvider_def newOpenAIProvider_def newOllamaProvider_def
        newBedrockProvider_def Let_def split: if_splits)

text \<open>
  C5. For an adapter built from a backend configuration, \<open>PrepareRequest\<close> is
  \<open>applyProviderOverrides\<close> with the configured values. It changes the system prompt,
  the token limit or the temperature only where the configured value is not the default
  (empty, zero), to that value; a default override leaves the caller's value as it is;
  and a value of the caller that is not empty or zero is never turned into empty or zero.
\<close>

theorem customize_overrides:
  assumes "buildProvider getenv cfg = Inr p"
  shows "PrepareRequest p req =
           applyProviderOverrides req (bc_SystemPrompt cfg) (bc_MaxTokens cfg) (bc_Temperature cfg) \<and>
         rq_UserPrompt (PrepareRequest p req) = rq_UserPrompt req \<and>
         (rq_SystemPrompt (PrepareRequest p req) \<noteq> rq_SystemPrompt req \<longrightarrow>
            bc_SystemPrompt cfg \<noteq> [] \<and> rq_SystemPrompt (PrepareRequest p req) = bc_SystemPrompt cfg) \<and>
         (rq_MaxTokens (PrepareRequest p req) \<noteq> rq_MaxTokens req \<longrightarrow>
            bc_MaxTokens cfg \<noteq> 0 \<and> rq_MaxTokens (PrepareRequest p req) = bc_MaxTokens cfg) \<and>
         (rq_Temperature (PrepareRequest p req) \<noteq> rq_Temperature req \<longrightarrow>
            bc_Temperature cfg \<noteq> 0 \<and> rq_Temperature (PrepareRequest p req) = bc_Temperature cfg) \<and>
         (bc_SystemPrompt cfg = [] \<longrightarrow> rq_SystemPrompt (PrepareRequest p req) = rq_SystemPrompt req) \<and>
         (bc_MaxTokens cfg = 0 \<longrightarrow> rq_MaxTokens (PrepareRequest p req) = rq_MaxTokens req) \<and>
         (bc_Temperature cfg = 0 \<longrightarrow> rq_Temperature (PrepareRequest p req) = rq_Temperature req) \<and>
         (rq_SystemPrompt req \<noteq> [] \<longrightarrow> rq_SystemPrompt (PrepareRequest p req) \<noteq> []) \<and>
         (rq_MaxTokens req \<noteq> 0 \<longrightarrow> rq_MaxTokens (PrepareRequest p req) \<noteq> 0) \<and>
         (rq_Temperature req \<noteq> 0 \<longrightarrow> rq_Temperature (PrepareRequest p req) \<noteq> 0)"
  unfolding buildProvider_PrepareRequest[OF assms] applyProviderOverrides_fields
  using TrimSpace_Nil by auto

lemma sampleOllama_built: "buildProvider (\<lambda>k. []) sampleBackend = Inr sampleOllama"
  by (simp add: buildProvider_def newOllamaProvider_def sampleBackend_def sampleOllama_def
      TrimRightSlash_def)

theorem customize_overrides_witness:
  "buildProvider (\<lambda>k. []) sampleBackend = Inr sampleOllama \<and>
   bc_SystemPrompt sampleBackend = [] \<and> bc_MaxTokens sampleBackend = 0 \<and>
   bc_Temperature sampleBackend \<noteq> 0 \<and>
   rq_SystemPrompt sampleRequest \<noteq> [] \<and> rq_MaxTokens sampleRequest \<noteq> 0 \<and>
   rq_Temperature sampleRequest \<noteq> 0 \<and>
   rq_Temperature (PrepareRequest sampleOllama sampleRequest) \<noteq> rq_Temperature sampleRequest \<and>
   PrepareRequest sampleOllama sampleRequest =
     \<lparr>rq_SystemPrompt = ''sys'', rq_UserPrompt = ''user'', rq_MaxTokens = 900,
      rq_Temperature = 1 / 2\<rparr>"
  using customize_overrides[OF sampleOllama_built, of sampleRequest]
  by (simp add: sampleBackend_def sampleOllama_def sampleRequest_def applyProviderOverrides_def
      TrimSpace_Nil buildProvider_def newOllamaProvider_def TrimRightSlash_def)

section \<open>Fan-out: results in configuration order\<close>

lemma goroutine_fst:
  "fst (goroutine env ps req j st) =
     (if j < length ps then (fst st)[j := fst (providerCall env req j (ps ! j))] else fst st)"
  by (simp add: goroutine_def split_beta)

lemma fold_goroutine_length:
  "length (fst (fold (goroutine env ps req) sched st)) = length (fst st)"
  by (induction sched arbitrary: st) (simp_all add: goroutine_fst)

lemma fold_goroutine_nth:
  "i < length (fst st) \<Longrightarrow> length (fst st) = length ps \<Longrightarrow>
   fst (fold (goroutine env ps req) sched st) ! i =
     (if i \<in> set sched then fst (providerCall env req i (ps ! i)) else fst st ! i)"
proof (induction sched arbitrary: st rule: rev_induct)
  case Nil
  then show ?case by simp
next
  case (snoc j sched)
  let ?st = "fold (goroutine env ps req) sched st"
  have len: "length (fst ?st) = length ps"
    using snoc.prems(2) by (simp add: fold_goroutine_length)
  have ih: "fst ?st ! i =
     (if i \<in> set sched then fst (providerCall env req i (ps ! i)) else fst st ! i)"
    using snoc by simp
  show ?case
  proof (cases "j = i")
    case True
    then show ?thesis using snoc.prems len
      by (simp add: goroutine_fst)
  next
    case False
    then show ?thesis using ih len
      by (simp add: goroutine_fst)
  qed
qed

lemma buildLLMRequest_schedule [simp]:
  "buildLLMRequest (env\<lparr>je_schedule := sched\<rparr>) job ms lb = buildLLMRequest env job ms lb"
  by (simp add: buildLLMRequest_def)

lemma providerCall_schedule [simp]:
  "providerCall (env\<lparr>je_schedule := sched\<rparr>) req i p = providerCall env req i p"
  by (simp add: providerCall_def Let_def split: sum.splits option.splits)

lemma goroutine_schedule [simp]:
  "goroutine (env\<lparr>je_schedule := sched\<rparr>) ps req = goroutine env ps req"
  by (rule ext)+ (simp add: goroutine_def)

lemma providerCall_identity:
  "pr_Provider (fst (providerCall env req i p)) = Name p \<and>
   pr_Type (fst (providerCall env req i p)) = Type p \<and>
   pr_Model (fst (providerCall env req i p)) = Model p \<and>
   pr_DurationMS (fst (providerCall env req i p)) = je_durationMS env i"
  by (simp add: providerCall_def Let_def split: sum.splits option.splits)

lemma fanout_results:
  assumes "buildLLMRequest env job ms (cfg_PrometheusLookback cfg) = Inr request"
      and "completionOrder (length providers) sched"
  shows "fst (runProviders cfg providers (env\<lparr>je_schedule := sched\<rparr>) job ms m) =
           map (\<lambda>i. fst (providerCall env request i (providers ! i))) [0..<length providers]"
proof (rule nth_equalityI)
  let ?st0 = "(replicate (length providers) zeroProviderResult, m)"
  have run: "fst (runProviders cfg providers (env\<lparr>je_schedule := sched\<rparr>) job ms m) =
     fst (fold (goroutine env providers request) sched ?st0)"
    using assms(1) by (simp add: runProviders_def)
  show "length (fst (runProviders cfg providers (env\<lparr>je_schedule := sched\<rparr>) job ms m)) =
     length (map (\<lambda>i. fst (providerCall env request i (providers ! i))) [0..<length providers])"
    by (simp add: run fold_goroutine_length)
  fix i
  assume "i < length (fst (runProviders cfg providers (env\<lparr>je_schedule := sched\<rparr>) job ms m))"
  then have i: "i < length providers" by (simp add: run fold_goroutine_length)
  then have "i \<in> set sched" using assms(2) by (simp add: completionOrder_def)
  then show "fst (runProviders cfg providers (env\<lparr>je_schedule := sched\<rparr>) job ms m) ! i =
     map (\<lambda>i. fst (providerCall env request i (providers ! i))) [0..<length providers] ! i"
    using i fold_goroutine_nth[where i=i and st="?st0" and ps=providers and env=env and req=request and sched=sched] by (simp add: run)
qed

text \<open>
  C1. When fan-out runs (a backend is configured and the prompt was built), the result
  list is as long as the provider list and its entry \<open>i\<close> is what the goroutine of
  provider \<open>i\<close> computed, with that provider's name, type and model, whatever the
  order in which the goroutines finished.
\<close>

theorem fanout_preserves_configuration_order:
  assumes "providers \<noteq> []"
      and "buildLLMRequest env job ms (cfg_PrometheusLookback cfg) = Inr request"
      and "completionOrder (length providers) (je_schedule env)"
  shows "length (fst (runProviders cfg providers env job ms m)) = length providers \<and>
         (\<forall>i < length providers.
            fst (runProviders cfg providers env job ms m) ! i =
              fst (providerCall env request i (providers ! i)) \<and>
            pr_Provider (fst (runProviders cfg providers env job ms m) ! i) = Name (providers ! i) \<and>
            pr_Type (fst (runProviders cfg providers env job ms m) ! i) = Type (providers ! i) \<and>
            pr_Model (fst (runProviders cfg providers env job ms m) ! i) = Model (providers ! i)) \<and>
         (\<forall>sched. completionOrder (length providers) sched \<longrightarrow>
            fst (runProviders cfg providers (env\<lparr>je_schedule := sched\<rparr>) job ms m) =
              fst (runProviders cfg providers env job ms m))"
proof -
  have e: "env\<lparr>je_schedule := je_schedule env\<rparr> = env" by simp
  have r: "fst (runProviders cfg providers env job ms m) =
           map (\<lambda>i. fst (providerCall env request i (providers ! i))) [0..<length providers]"
    using fanout_results[OF assms(2) assms(3), where m=m] by (simp only: e)
  show ?thesis
  proof (intro conjI allI impI)
    show "length (fst (runProviders cfg providers env job ms m)) = length providers"
      by (simp add: r)
  next
    fix i assume "i < length providers"
    then show "fst (runProviders cfg providers env job ms m) ! i =
              fst (providerCall env request i (providers ! i))" by (simp add: r)
  next
    fix i assume "i < length providers"
    then show "pr_Provider (fst (runProviders cfg providers env job ms m) ! i) = Name (providers ! i)"
      by (simp add: r providerCall_identity)
  next
    fix i assume "i < length providers"
    then show "pr_Type (fst (runProviders cfg providers env job ms m) ! i) = Type (providers ! i)"
      by (simp add: r providerCall_identity)
  next
    fix i assume "i < length providers"
    then show "pr_Model (fst (runProviders cfg providers env job ms m) ! i) = Model (providers ! i)"
      by (simp add: r providerCall_identity)
  next
    fix sched assume "completionOrder (length providers) sched"
    then show "fst (runProviders cfg providers (env\<lparr>je_schedule := sched\<rparr>) job ms m) =
              fst (runProviders cfg providers env job ms m)"
      using fanout_results[OF assms(2), where sched=sched and m=m] by (simp add: r)
  qed
qed

lemma sample_request_built:
  "buildLLMRequest sampleEnv (sampleJob ''j1'' 100 []) [] (cfg_PrometheusLookback (sampleConfig ''http://prom'' 30 25)) =
     Inr \<lparr>rq_SystemPrompt = defaultSystemPrompt, rq_UserPrompt = userPromptIntro @ ''{}'',
          rq_MaxTokens = 900, rq_Temperature = 2 / 10\<rparr>"
  by (simp add: buildLLMRequest_def sampleEnv_def)

lemma sample_names:
  "Name sampleOllama = ''local''" "Type sampleOllama = ''ollama''" "Model sampleOllama = ''llama3''"
  "Name sampleBedrock = ''cloud''" "Type sampleBedrock = ''bedrock''" "Model sampleBedrock = ''claude''"
  by (simp_all add: sampleOllama_def sampleBedrock_def)

lemma sample_order:
  "completionOrder (length [sampleOllama, sampleBedrock]) (je_schedule sampleEnv)"
  "completionOrder (length [sampleOllama, sampleBedrock]) [0, 1]"
  by (auto simp: completionOrder_def sampleEnv_def)

theorem fanout_preserves_configuration_order_witness:
  "[sampleOllama, sampleBedrock] \<noteq> [] \<and>
   completionOrder (length [sampleOllama, sampleBedrock]) (je_schedule sampleEnv) \<and>
   completionOrder (length [sampleOllama, sampleBedrock]) [0, 1] \<and>
   length (fst (runProviders (sampleConfig ''http://prom'' 30 25) [sampleOllama, sampleBedrock]
      sampleEnv (sampleJob ''j1'' 100 []) [] sampleMetrics)) = 2 \<and>
   pr_Provider (fst (runProviders (sampleConfig ''http://prom'' 30 25) [sampleOllama, sampleBedrock]
      sampleEnv (sampleJob ''j1'' 100 []) [] sampleMetrics) ! 0) = ''local'' \<and>
   pr_Provider (fst (runProviders (sampleConfig ''http://prom'' 30 25) [sampleOllama, sampleBedrock]
      sampleEnv (sampleJob ''j1'' 100 []) [] sampleMetrics) ! 1) = ''cloud'' \<and>
   fst (runProviders (sampleConfig ''http://prom'' 30 25) [sampleOllama, sampleBedrock]
      (sampleEnv\<lparr>je_schedule := [0, 1]\<rparr>) (sampleJob ''j1'' 100 []) [] sampleMetrics) =
   fst (runProviders (sampleConfig ''http://prom'' 30 25) [sampleOllama, sampleBedrock]
      sampleEnv (sampleJob ''j1'' 100 []) [] sampleMetrics)"
proof -
  have ne: "[sampleOllama, sampleBedrock] \<noteq> []" by simp
  note t = fanout_preserves_configuration_order[OF ne sample_request_built sample_order(1),
      where m = sampleMetrics]
  have len: "length (fst (runProviders (sampleConfig ''http://prom'' 30 25) [sampleOllama, sampleBedrock]
      sampleEnv (sampleJob ''j1'' 100 []) [] sampleMetrics)) = 2"
    using t[THEN conjunct1] by simp
  have i0: "(0::nat) < length [sampleOllama, sampleBedrock]" by simp
  have i1: "(1::nat) < length [sampleOllama, sampleBedrock]" by simp
  have n0: "pr_Provider (fst (runProviders (sampleConfig ''http://prom'' 30 25) [sampleOllama, sampleBedrock]
      sampleEnv (sampleJob ''j1'' 100 []) [] sampleMetrics) ! 0) = ''local''"
    using t[THEN conjunct2, THEN conjunct1, rule_format, OF i0, THEN conjunct2, THEN conjunct1]
    by (simp add: sample_names)
  have n1: "pr_Provider (fst (runProviders (sampleConfig ''http://prom'' 30 25) [sampleOllama, sampleBedrock]
      sampleEnv (sampleJob ''j1'' 100 []) [] sampleMetrics) ! 1) = ''cloud''"
    using t[THEN conjunct2, THEN conjunct1, rule_format, OF i1, THEN conjunct2, THEN conjunct1]
    by (simp add: sample_names)
  note eq = t[THEN conjunct2, THEN conjunct2, rule_format, OF sample_order(2)]
  show ?thesis
    by (intro conjI ne sample_order len n0 n1 eq)
qed

section \<open>Fan-out: parsing of successful responses\<close>

text \<open>
  C2. When a backend call succeeds, its response text is stored on the result, and the
  result carries a parsed analysis exactly when the text decodes as a
  \<open>StructuredAnalysis\<close> whose summary is not empty: that analysis.
\<close>

theorem parsed_attached_iff:
  assumes "je_complete env idx provider (PrepareRequest provider request) = Inr response"
  shows "pr_Response (fst (providerCall env request idx provider)) = response \<and>
         pr_Error (fst (providerCall env request idx provider)) = [] \<and>
         (\<forall>parsed. pr_Parsed (fst (providerCall env request idx provider)) = Some parsed \<longleftrightarrow>
            je_unmarshalAnalysis env response = Some parsed \<and> sa_Summary parsed \<noteq> [])"
  using assms
  by (auto simp: providerCall_def Let_def zeroProviderResult_def split: option.splits)


theorem parsed_attached_iff_witness:
  "je_complete sampleEnv 0 sampleOllama (PrepareRequest sampleOllama sampleRequest) = Inr ''summary-x'' \<and>
   je_unmarshalAnalysis sampleEnv ''summary-x'' = Some (sampleAnalysis ''x'') \<and>
   sa_Summary (sampleAnalysis ''x'') \<noteq> [] \<and>
   pr_Response (fst (providerCall sampleEnv sampleRequest 0 sampleOllama)) = ''summary-x'' \<and>
   pr_Parsed (fst (providerCall sampleEnv sampleRequest 0 sampleOllama)) = Some (sampleAnalysis ''x'')"
proof -
  have c: "je_complete sampleEnv 0 sampleOllama (PrepareRequest sampleOllama sampleRequest) = Inr ''summary-x''"
    by (simp add: sampleEnv_def)
  have u: "je_unmarshalAnalysis sampleEnv ''summary-x'' = Some (sampleAnalysis ''x'')"
    by (simp add: sampleEnv_def)
  have s: "sa_Summary (sampleAnalysis ''x'') \<noteq> []" by (simp add: sampleAnalysis_def)
  note t = parsed_attached_iff[OF c]
  have p: "pr_Parsed (fst (providerCall sampleEnv sampleRequest 0 sampleOllama)) = Some (sampleAnalysis ''x'')"
    using t[THEN conjunct2, THEN conjunct2, rule_format, of "sampleAnalysis ''x''"] u s by simp
  show ?thesis by (intro conjI c u s t[THEN conjunct1] p)
qed

section \<open>Time anchoring of the evidence queries\<close>

lemma earliestLoop_fold:
  "earliestLoop e alerts = fold min (filter (\<lambda>t. t \<noteq> 0) (map al_StartsAt alerts)) e"
  by (induction alerts arbitrary: e) (auto simp: min_def)

lemma earliestLoop_Min:
  "earliestLoop e alerts = Min (set (e # filter (\<lambda>t. t \<noteq> 0) (map al_StartsAt alerts)))"
  by (simp only: earliestLoop_fold Min.set_eq_fold)

text \<open>
  The specification's fallback, the arrival time of the job, is not the code's: a job
  that arrived at 100 and whose only alert has no start time is queried, with a lookback
  of 10, at the clock reading 202 and not at 110.
\<close>

theorem query_time_fallback_counterexample:
  "pl_Alerts (job_Payload (sampleJob ''j1'' 100 [sampleAlert 0])) \<noteq> [] \<and>
   queryTimeOf (sampleConfig ''http://prom'' 10 25) sampleEnv (sampleJob ''j1'' 100 [sampleAlert 0]) = 202 \<and>
   spec_queryTime (sampleConfig ''http://prom'' 10 25) (je_clampNow sampleEnv)
     (sampleJob ''j1'' 100 [sampleAlert 0]) = 110 \<and>
   queryTimeOf (sampleConfig ''http://prom'' 10 25) sampleEnv (sampleJob ''j1'' 100 [sampleAlert 0]) \<noteq>
   spec_queryTime (sampleConfig ''http://prom'' 10 25) (je_clampNow sampleEnv)
     (sampleJob ''j1'' 100 [sampleAlert 0])"
  by (simp add: queryTimeOf_def spec_queryTime_def earliestAlertTime_def sampleConfig_def sampleEnv_def
      sampleJob_def samplePayload_def sampleAlert_def)

text \<open>
  C3, as the code has it. For a job with alerts the query time is the earliest of the
  current time (read when collection starts) and the non-zero start times of the alerts,
  plus the lookback; when it lies after the current time (read again) it is replaced by
  the current time (read once more), so it never exceeds that reading when the clock does
  not run backwards.
\<close>

theorem query_time_anchor:
  assumes "pl_Alerts (job_Payload job) \<noteq> []"
  shows "queryTimeOf cfg env job =
           (let earliest = Min (set (je_queryNow env #
                   filter (\<lambda>t. t \<noteq> 0) (map al_StartsAt (pl_Alerts (job_Payload job)))));
                queryTime = earliest + cfg_PrometheusLookback cfg
            in if je_clampCheck env < queryTime then je_clampNow env else queryTime) \<and>
         (je_clampCheck env \<le> je_clampNow env \<longrightarrow> queryTimeOf cfg env job \<le> je_clampNow env)"
  using assms
  by (simp add: queryTimeOf_def earliestAlertTime_def earliestLoop_Min Let_def del: set_simps list.set)

theorem query_time_anchor_witness:
  "pl_Alerts (job_Payload (sampleJob ''j1'' 100 [sampleAlert 50, sampleAlert 55])) \<noteq> [] \<and>
   je_clampCheck sampleEnv \<le> je_clampNow sampleEnv \<and>
   queryTimeOf (sampleConfig ''http://prom'' 30 25) sampleEnv
     (sampleJob ''j1'' 100 [sampleAlert 50, sampleAlert 55]) = 80 \<and>
   queryTimeOf (sampleConfig ''http://prom'' 30 25) sampleEnv
     (sampleJob ''j1'' 100 [sampleAlert 50, sampleAlert 55]) \<le> je_clampNow sampleEnv"
proof -
  have a: "pl_Alerts (job_Payload (sampleJob ''j1'' 100 [sampleAlert 50, sampleAlert 55])) \<noteq> []"
    by (simp add: sampleJob_def samplePayload_def)
  have c: "je_clampCheck sampleEnv \<le> je_clampNow sampleEnv" by (simp add: sampleEnv_def)
  note t = query_time_anchor[OF a, of "sampleConfig ''http://prom'' 30 25" sampleEnv]
  have v: "queryTimeOf (sampleConfig ''http://prom'' 30 25) sampleEnv
     (sampleJob ''j1'' 100 [sampleAlert 50, sampleAlert 55]) = 80"
    using t[THEN conjunct1]
    by (simp add: sampleConfig_def sampleEnv_def sampleJob_def samplePayload_def sampleAlert_def)
  show ?thesis by (intro conjI a c v t[THEN conjunct2, rule_format, OF c])
qed


section \<open>Admission\<close>

text \<open>
  The counter of received payloads is incremented before the send is tried: a request
  that finds the queue full is answered 503 and is counted as received all the same.
\<close>

theorem received_counted_on_rejection_counterexample:
  "fst (handleGrafanaWebhook (sampleServer ''http://prom'' 25 [] fullQueue) sampleRequestEnv
          samplePost sampleMetrics) = \<lparr>rp_status = 503, rp_body = PlainText ''queue full''\<rparr> \<and>
   sv_queue (fst (snd (handleGrafanaWebhook (sampleServer ''http://prom'' 25 [] fullQueue)
          sampleRequestEnv samplePost sampleMetrics))) = fullQueue \<and>
   alertsReceivedTotal sampleMetrics ''firing'' = 0 \<and>
   alertsReceivedTotal (fst (snd (snd (handleGrafanaWebhook
          (sampleServer ''http://prom'' 25 [] fullQueue) sampleRequestEnv samplePost
          sampleMetrics)))) ''firing'' = 1"
  by (simp add: handleGrafanaWebhook_def sampleServer_def sampleRequestEnv_def samplePost_def
      fullQueue_def trySend_def Let_def sampleMetrics_def Inc_def samplePayload_def)

text \<open>
  C6, as the code has it. The handler always answers a POST with a decodable body at
  once, and counts the payload as received under its status whether or not the job is
  admitted. When no worker waits and the buffer is full it answers 503 "queue full",
  increments the queue-full counter and leaves the queue as it was; otherwise it answers
  202, raises the queue-depth gauge and the job is in the buffer or with a waiting worker.
\<close>

theorem admission_decision:
  assumes "hr_Method r = ''POST''" and "re_decodePayload env (hr_Body r) = Some payload"
  shows "case handleGrafanaWebhook s env r m of
           (reply, s', m', handed) \<Rightarrow>
             alertsReceivedTotal m' = Inc (alertsReceivedTotal m) (pl_Status payload) \<and>
             (if ch_recvq (sv_queue s) = 0 \<and> ch_cap (sv_queue s) \<le> length (ch_buf (sv_queue s))
              then reply = \<lparr>rp_status = 503, rp_body = PlainText ''queue full''\<rparr> \<and>
                   s' = s \<and> handed = None \<and>
                   jobResultsTotal m' = Inc (jobResultsTotal m) ''queue_full'' \<and>
                   queueDepthGauge m' = queueDepthGauge m
              else rp_status reply = 202 \<and>
                   jobResultsTotal m' = jobResultsTotal m \<and>
                   queueDepthGauge m' = queueDepthGauge m + 1 \<and>
                   (if 0 < ch_recvq (sv_queue s)
                    then ch_buf (sv_queue s') = ch_buf (sv_queue s) \<and>
                         (\<exists>job. handed = Some job \<and> job_Payload job = payload)
                    else handed = None \<and>
                         (\<exists>job. ch_buf (sv_queue s') = ch_buf (sv_queue s) @ [job] \<and>
                                job_Payload job = payload)))"
  using assms
  by (simp add: handleGrafanaWebhook_def trySend_def Let_def)

theorem admission_decision_witness:
  "hr_Method samplePost = ''POST'' \<and>
   re_decodePayload sampleRequestEnv (hr_Body samplePost) = Some (samplePayload [sampleAlert 50]) \<and>
   \<not> (ch_recvq (sv_queue (sampleServer ''http://prom'' 25 [] freeQueue)) = 0 \<and>
      ch_cap (sv_queue (sampleServer ''http://prom'' 25 [] freeQueue))
        \<le> length (ch_buf (sv_queue (sampleServer ''http://prom'' 25 [] freeQueue)))) \<and>
   (case handleGrafanaWebhook (sampleServer ''http://prom'' 25 [] freeQueue) sampleRequestEnv samplePost sampleMetrics of
      (reply, s', m', handed) \<Rightarrow>
        rp_status reply = 202 \<and> alertsReceivedTotal m' ''firing'' = 1 \<and>
        jobResultsTotal m' ''queue_full'' = 0 \<and> queueDepthGauge m' = 1 \<and> handed = None \<and>
        map job_Payload (ch_buf (sv_queue s')) = [samplePayload [sampleAlert 50]])"
proof -
  have a: "hr_Method samplePost = ''POST''" by (simp add: samplePost_def)
  have b: "re_decodePayload sampleRequestEnv (hr_Body samplePost) = Some (samplePayload [sampleAlert 50])"
    by (simp add: samplePost_def sampleRequestEnv_def)
  have c: "\<not> (ch_recvq (sv_queue (sampleServer ''http://prom'' 25 [] freeQueue)) = 0 \<and>
      ch_cap (sv_queue (sampleServer ''http://prom'' 25 [] freeQueue))
        \<le> length (ch_buf (sv_queue (sampleServer ''http://prom'' 25 [] freeQueue))))"
    by (simp add: sampleServer_def freeQueue_def)
  have d: "ch_recvq (sv_queue (sampleServer ''http://prom'' 25 [] freeQueue)) = 0"
    "ch_buf (sv_queue (sampleServer ''http://prom'' 25 [] freeQueue)) = []"
    by (simp_all add: sampleServer_def freeQueue_def)
  have e: "pl_Status (samplePayload [sampleAlert 50]) = ''firing''" by (simp add: samplePayload_def)
  have f: "alertsReceivedTotal sampleMetrics = (\<lambda>k. 0)" "jobResultsTotal sampleMetrics = (\<lambda>k. 0)"
    "queueDepthGauge sampleMetrics = 0" by (simp_all add: sampleMetrics_def)
  show ?thesis
    using admission_decision[OF a b, where s = "sampleServer ''http://prom'' 25 [] freeQueue" and m = sampleMetrics] c
    by (auto simp: a b d e f Inc_def split: prod.splits)
qed


section \<open>Evidence collection\<close>

lemma InstantQuery_ok:
  "InstantQuery env p q t = Inr snap \<Longrightarrow>
     ms_Name snap = mq_Name q \<and> ms_Description snap = mq_Description q \<and>
     ms_Query snap = mq_Query q \<and> ms_Error snap = []"
  by (auto simp: InstantQuery_def Let_def zeroMetricSnapshot_def
      split: httpResult.splits sum.splits if_splits)

lemma InstantQuery_error_text:
  "InstantQuery env p q t = Inl err \<Longrightarrow> err \<noteq> []"
  by (auto simp: InstantQuery_def Let_def split: httpResult.splits sum.splits if_splits)

lemma queryLoop_snapshots:
  "fst (queryLoop env p t qs acc m) =
     acc @ map (\<lambda>q. case InstantQuery env p q t of
                       Inl err \<Rightarrow> errorSnapshot q err | Inr snapshot \<Rightarrow> snapshot) qs"
  by (induction qs arbitrary: acc m) (simp_all split: sum.splits)

lemma collectMetrics_error: "snd (fst (collectMetrics cfg prom env job m)) = None"
  by (simp add: collectMetrics_def split_beta)

lemma collectMetrics_blank:
  "TrimSpace (cfg_PrometheusURL cfg) = [] \<Longrightarrow> collectMetrics cfg prom env job m = (([], None), m)"
  by (simp add: collectMetrics_def)

lemma collectMetrics_snapshots:
  "TrimSpace (cfg_PrometheusURL cfg) \<noteq> [] \<Longrightarrow>
   fst (fst (collectMetrics cfg prom env job m)) =
     map (\<lambda>q. case InstantQuery env prom q (queryTimeOf cfg env job) of
                       Inl err \<Rightarrow> errorSnapshot q err | Inr snapshot \<Rightarrow> snapshot)
       (cfg_MetricQueries cfg)"
  by (simp add: collectMetrics_def split_beta queryLoop_snapshots)

lemma snapshots_of_nonblank_url:
  assumes "TrimSpace (cfg_PrometheusURL cfg) \<noteq> []"
  shows "length (fst (fst (collectMetrics cfg prom env job m))) = length (cfg_MetricQueries cfg) \<and>
         (\<forall>i < length (cfg_MetricQueries cfg).
            ms_Name (fst (fst (collectMetrics cfg prom env job m)) ! i) = mq_Name (cfg_MetricQueries cfg ! i) \<and>
            ms_Description (fst (fst (collectMetrics cfg prom env job m)) ! i) =
              mq_Description (cfg_MetricQueries cfg ! i) \<and>
            ms_Query (fst (fst (collectMetrics cfg prom env job m)) ! i) = mq_Query (cfg_MetricQueries cfg ! i) \<and>
            (case InstantQuery env prom (cfg_MetricQueries cfg ! i) (queryTimeOf cfg env job) of
               Inl err \<Rightarrow>
                 err \<noteq> [] \<and>
                 fst (fst (collectMetrics cfg prom env job m)) ! i =
                   \<lparr>ms_Name = mq_Name (cfg_MetricQueries cfg ! i),
                    ms_Description = mq_Description (cfg_MetricQueries cfg ! i),
                    ms_Query = mq_Query (cfg_MetricQueries cfg ! i),
                    ms_ResultType = [], ms_Summary = [], ms_Series = [], ms_Error = err\<rparr>
             | Inr snapshot \<Rightarrow>
                 fst (fst (collectMetrics cfg prom env job m)) ! i = snapshot \<and>
                 ms_Error snapshot = []))"
proof (intro conjI allI impI)
  show "length (fst (fst (collectMetrics cfg prom env job m))) = length (cfg_MetricQueries cfg)"
    by (simp add: collectMetrics_snapshots[OF assms])
next
  fix i assume i: "i < length (cfg_MetricQueries cfg)"
  let ?q = "cfg_MetricQueries cfg ! i"
  have nth: "fst (fst (collectMetrics cfg prom env job m)) ! i =
     (case InstantQuery env prom ?q (queryTimeOf cfg env job) of
        Inl err \<Rightarrow> errorSnapshot ?q err | Inr snapshot \<Rightarrow> snapshot)"
    using i by (simp add: collectMetrics_snapshots[OF assms])
  show "ms_Name (fst (fst (collectMetrics cfg prom env job m)) ! i) = mq_Name ?q"
    unfolding nth
    by (cases "InstantQuery env prom ?q (queryTimeOf cfg env job)")
       (simp_all add: errorSnapshot_def InstantQuery_ok)
  show "ms_Description (fst (fst (collectMetrics cfg prom env job m)) ! i) = mq_Description ?q"
    unfolding nth
    by (cases "InstantQuery env prom ?q (queryTimeOf cfg env job)")
       (simp_all add: errorSnapshot_def InstantQuery_ok)
  show "ms_Query (fst (fst (collectMetrics cfg prom env job m)) ! i) = mq_Query ?q"
    unfolding nth
    by (cases "InstantQuery env prom ?q (queryTimeOf cfg env job)")
       (simp_all add: errorSnapshot_def InstantQuery_ok)
  show "case InstantQuery env prom ?q (queryTimeOf cfg env job) of
               Inl err \<Rightarrow>
                 err \<noteq> [] \<and>
                 fst (fst (collectMetrics cfg prom env job m)) ! i =
                   \<lparr>ms_Name = mq_Name ?q,
                    ms_Description = mq_Description ?q,
                    ms_Query = mq_Query ?q,
                    ms_ResultType = [], ms_Summary = [], ms_Series = [], ms_Error = err\<rparr>
             | Inr snapshot \<Rightarrow>
                 fst (fst (collectMetrics cfg prom env job m)) ! i = snapshot \<and>
                 ms_Error snapshot = []"
    unfolding nth
    by (cases "InstantQuery env prom ?q (queryTimeOf cfg env job)")
       (simp_all add: errorSnapshot_def zeroMetricSnapshot_def InstantQuery_ok InstantQuery_error_text)
qed

subsection \<open>The metrics-backend URL of a started server\<close>

lemma leadWidth_zero_iff:
  assumes "[] \<notin> set pats"
  shows "leadWidth pats s = 0 \<longleftrightarrow> (\<forall>p \<in> set pats. take (length p) s \<noteq> p)"
proof (cases "filter (\<lambda>p. take (length p) s = p) pats")
  case Nil
  then show ?thesis by (auto simp: leadWidth_def filter_empty_conv)
next
  case (Cons p ps)
  then have "p \<in> set (filter (\<lambda>p. take (length p) s = p) pats)" by simp
  then have "p \<in> set pats" and "take (length p) s = p" by auto
  moreover from this assms have "p \<noteq> []" by auto
  ultimately show ?thesis using Cons by (auto simp: leadWidth_def)
qed

lemma leadWidth_prefix:
  assumes "[] \<notin> set pats" and "leadWidth pats (y @ w) = 0"
  shows "leadWidth pats y = 0"
proof -
  have "take (length p) y \<noteq> p" if p: "p \<in> set pats" for p
  proof
    assume t: "take (length p) y = p"
    have "length (take (length p) y) = min (length p) (length y)" by simp
    then have "length p \<le> length y" using t by simp
    then have "take (length p) (y @ w) = p" using t by simp
    then show False using assms p by (simp add: leadWidth_zero_iff)
  qed
  then show ?thesis using assms(1) by (simp add: leadWidth_zero_iff)
qed

lemma trimLead_no_lead:
  "trimLead pats s k = [] \<or> leadWidth pats (trimLead pats s k) = 0"
  by (induction s arbitrary: k) (auto simp: Let_def)

lemma trimLead_suffix: "\<exists>pre. s = pre @ trimLead pats s k"
proof (induction s arbitrary: k)
  case Nil
  then show ?case by simp
next
  case (Cons c cs)
  have "\<exists>pre. c # cs = pre @ trimLead pats cs j" for j
  proof -
    obtain pre where "cs = pre @ trimLead pats cs j" using Cons[of j] by blast
    then have "c # cs = (c # pre) @ trimLead pats cs j" by simp
    then show ?thesis by blast
  qed
  then show ?case by (auto simp: Let_def)
qed

lemma trimLead_fixed: "leadWidth pats s = 0 \<Longrightarrow> trimLead pats s 0 = s"
  by (cases s) (simp_all add: Let_def)

lemma spaceRunes_nonempty: "[] \<notin> set spaceRunes" "[] \<notin> set (map rev spaceRunes)"
  by (simp_all add: spaceRunes_def)

lemma TrimSpace_idem: "TrimSpace (TrimSpace x) = TrimSpace x"
proof (cases "TrimSpace x = []")
  case True
  then show ?thesis by (simp add: TrimSpace_def)
next
  case False
  let ?z = "trimLead spaceRunes x 0"
  let ?rz = "trimLead (map rev spaceRunes) (rev ?z) 0"
  have y: "TrimSpace x = rev ?rz" by (simp add: TrimSpace_def)
  have rz: "?rz \<noteq> []" using False y by simp
  have z: "?z \<noteq> []" using rz by auto
  have lz: "leadWidth spaceRunes ?z = 0" using trimLead_no_lead[of spaceRunes x 0] z by simp
  obtain pre where "rev ?z = pre @ ?rz" using trimLead_suffix by blast
  then have "?z = rev ?rz @ rev pre" by (metis rev_append rev_rev_ident)
  then have "leadWidth spaceRunes (rev ?rz @ rev pre) = 0" using lz by simp
  then have "leadWidth spaceRunes (rev ?rz) = 0"
    using leadWidth_prefix[OF spaceRunes_nonempty(1)] by blast
  then have l: "trimLead spaceRunes (rev ?rz) 0 = rev ?rz" by (rule trimLead_fixed)
  have "leadWidth (map rev spaceRunes) ?rz = 0"
    using trimLead_no_lead[of "map rev spaceRunes" "rev ?z" 0] rz by simp
  then have r: "trimLead (map rev spaceRunes) ?rz 0 = ?rz" by (rule trimLead_fixed)
  have "TrimSpace (rev ?rz) = rev ?rz"
    unfolding TrimSpace_def[of "rev ?rz"] l rev_rev_ident r ..
  then show ?thesis by (simp only: y)
qed

lemma default_url_not_blank: "TrimSpace ''http://host.k3d.internal:9090'' \<noteq> []"
  by (simp add: TrimSpace_def leadWidth_def spaceRunes_def)

lemma envString_not_blank:
  "TrimSpace defaultVal \<noteq> [] \<Longrightarrow> TrimSpace (envString sys key defaultVal) \<noteq> []"
  by (simp add: envString_def Let_def TrimSpace_idem)

lemma loadConfig_url:
  "loadConfig sys = Inr cfg \<Longrightarrow>
   cfg_PrometheusURL cfg = envString sys ''PROMETHEUS_URL'' ''http://host.k3d.internal:9090''"
  by (auto simp: loadConfig_def Let_def split: sum.splits if_splits)

lemma mainServer_cfg:
  "mainServer sys = Inr s \<Longrightarrow> loadConfig sys = Inr (sv_cfg s)"
  by (auto simp: mainServer_def split: sum.splits if_splits)

lemma mainServer_url_not_blank:
  assumes "mainServer sys = Inr s"
  shows "TrimSpace (cfg_PrometheusURL (sv_cfg s)) \<noteq> []"
  using loadConfig_url[OF mainServer_cfg[OF assms]] envString_not_blank[OF default_url_not_blank]
  by simp

lemma sampleSys_started:
  "\<exists>s. mainServer sampleSys = Inr s \<and>
       cfg_MetricQueries (sv_cfg s) = defaultMetricQueries (30 * 60000000000) \<and>
       cfg_PrometheusLookback (sv_cfg s) = 30 * 60000000000"
  by (simp add: mainServer_def loadConfig_def sampleSys_def envString_def envInt_def
      envDuration_def parseBackends_def TrimSpace_Nil Let_def)

text \<open>Neither the processing of a job nor a request changes the configuration of the server.\<close>

lemma processJob_keeps_cfg:
  "processJob s env w job m = Inr (s', m') \<Longrightarrow> sv_cfg s' = sv_cfg s"
  by (auto simp: processJob_def split_beta split: sum.splits)

lemma worker_keeps_cfg:
  "worker s w jobs m = Inr (s', m') \<Longrightarrow> sv_cfg s' = sv_cfg s"
proof (induction jobs arbitrary: s m)
  case Nil
  then show ?case by simp
next
  case (Cons je jobs)
  obtain job env where je: "je = (job, env)" by (cases je)
  from Cons.prems obtain s1 m1
    where p: "processJob s env w job (m\<lparr>queueDepthGauge := queueDepthGauge m - 1\<rparr>) = Inr (s1, m1)"
      and w: "worker s1 w jobs m1 = Inr (s', m')"
    by (auto simp: je split: sum.splits)
  show ?case using Cons.IH[OF w] processJob_keeps_cfg[OF p] by simp
qed

lemma handleGrafanaWebhook_keeps_cfg:
  "sv_cfg (fst (snd (handleGrafanaWebhook s env r m))) = sv_cfg s"
  by (simp add: handleGrafanaWebhook_def Let_def split: option.splits)

text \<open>
  C8. The server that \<open>main\<close> starts has a metrics-backend URL that is not blank: the
  trimmed value of the environment variable or, when that is empty, the default; and
  the configuration stays what it was at the start. So for every job the program
  processes, collection yields one snapshot per configured query, in
  configuration order, each with the name, description and expression of its query. A
  query that fails yields a snapshot with only these three fields and the error text,
  and does not keep the other queries from being run; a query that succeeds yields the
  snapshot of \<open>InstantQuery\<close>.
\<close>

theorem one_snapshot_per_query:
  assumes "mainServer sys = Inr s0" and "sv_cfg s = sv_cfg s0"
  shows "length (fst (fst (collectMetrics (sv_cfg s) (sv_prom s) env job m))) = length (cfg_MetricQueries (sv_cfg s)) \<and>
         (\<forall>i < length (cfg_MetricQueries (sv_cfg s)).
            ms_Name (fst (fst (collectMetrics (sv_cfg s) (sv_prom s) env job m)) ! i) = mq_Name (cfg_MetricQueries (sv_cfg s) ! i) \<and>
            ms_Description (fst (fst (collectMetrics (sv_cfg s) (sv_prom s) env job m)) ! i) =
              mq_Description (cfg_MetricQueries (sv_cfg s) ! i) \<and>
            ms_Query (fst (fst (collectMetrics (sv_cfg s) (sv_prom s) env job m)) ! i) = mq_Query (cfg_MetricQueries (sv_cfg s) ! i) \<and>
            (case InstantQuery env (sv_prom s) (cfg_MetricQueries (sv_cfg s) ! i) (queryTimeOf (sv_cfg s) env job) of
               Inl err \<Rightarrow>
                 err \<noteq> [] \<and>
                 fst (fst (collectMetrics (sv_cfg s) (sv_prom s) env job m)) ! i =
                   \<lparr>ms_Name = mq_Name (cfg_MetricQueries (sv_cfg s) ! i),
                    ms_Description = mq_Description (cfg_MetricQueries (sv_cfg s) ! i),
                    ms_Query = mq_Query (cfg_MetricQueries (sv_cfg s) ! i),
                    ms_ResultType = [], ms_Summary = [], ms_Series = [], ms_Error = err\<rparr>
             | Inr snapshot \<Rightarrow>
                 fst (fst (collectMetrics (sv_cfg s) (sv_prom s) env job m)) ! i = snapshot \<and>
                 ms_Error snapshot = []))"
proof -
  have "TrimSpace (cfg_PrometheusURL (sv_cfg s)) \<noteq> []"
    using mainServer_url_not_blank[OF assms(1)] assms(2) by simp
  then show ?thesis by (rule snapshots_of_nonblank_url)
qed

theorem one_snapshot_per_query_witness:
  "\<exists>s. mainServer sampleSys = Inr s \<and>
     length (cfg_MetricQueries (sv_cfg s)) = 21 \<and>
     length (fst (fst (collectMetrics (sv_cfg s) (sv_prom s) sampleEnv
        (sampleJob ''j1'' 100 [sampleAlert 50]) sampleMetrics))) = 21 \<and>
     ms_Name (fst (fst (collectMetrics (sv_cfg s) (sv_prom s) sampleEnv
        (sampleJob ''j1'' 100 [sampleAlert 50]) sampleMetrics)) ! 0) = ''gateway_reachable_avg''"
proof -
  obtain s where st: "mainServer sampleSys = Inr s"
    and q: "cfg_MetricQueries (sv_cfg s) = defaultMetricQueries (30 * 60000000000)"
    using sampleSys_started by blast
  have n: "length (cfg_MetricQueries (sv_cfg s)) = 21"
    by (simp add: q defaultMetricQueries_def Let_def)
  have q0: "mq_Name (cfg_MetricQueries (sv_cfg s) ! 0) = ''gateway_reachable_avg''"
    by (simp add: q defaultMetricQueries_def Let_def)
  have i0: "0 < length (cfg_MetricQueries (sv_cfg s))" using n by simp
  note t = one_snapshot_per_query[OF st refl, where env = sampleEnv
      and job = "sampleJob ''j1'' 100 [sampleAlert 50]" and m = sampleMetrics]
  have len: "length (fst (fst (collectMetrics (sv_cfg s) (sv_prom s) sampleEnv
        (sampleJob ''j1'' 100 [sampleAlert 50]) sampleMetrics))) = 21"
    using t[THEN conjunct1] n by simp
  have nm: "ms_Name (fst (fst (collectMetrics (sv_cfg s) (sv_prom s) sampleEnv
        (sampleJob ''j1'' 100 [sampleAlert 50]) sampleMetrics)) ! 0) = ''gateway_reachable_avg''"
    using t[THEN conjunct2, rule_format, OF i0, THEN conjunct1] q0 by simp
  show ?thesis by (intro exI[of _ s] conjI st n len nm)
qed

section \<open>The per-job pipeline\<close>

lemma queryLoop_other_metrics:
  "alertsReceivedTotal (snd (queryLoop env p t qs acc m)) = alertsReceivedTotal m \<and>
   queueDepthGauge (snd (queryLoop env p t qs acc m)) = queueDepthGauge m \<and>
   jobResultsTotal (snd (queryLoop env p t qs acc m)) = jobResultsTotal m \<and>
   jobDurationSeconds (snd (queryLoop env p t qs acc m)) = jobDurationSeconds m \<and>
   providerRequestsTotal (snd (queryLoop env p t qs acc m)) = providerRequestsTotal m"
  by (induction qs arbitrary: acc m) (simp_all split: sum.splits)

lemma collectMetrics_other_metrics:
  "alertsReceivedTotal (snd (collectMetrics cfg prom env job m)) = alertsReceivedTotal m \<and>
   queueDepthGauge (snd (collectMetrics cfg prom env job m)) = queueDepthGauge m \<and>
   jobResultsTotal (snd (collectMetrics cfg prom env job m)) = jobResultsTotal m \<and>
   jobDurationSeconds (snd (collectMetrics cfg prom env job m)) = jobDurationSeconds m \<and>
   providerRequestsTotal (snd (collectMetrics cfg prom env job m)) = providerRequestsTotal m"
  by (simp add: collectMetrics_def split_beta queryLoop_other_metrics)

lemma goroutine_other_metrics:
  "queueDepthGauge (snd (goroutine env ps req j st)) = queueDepthGauge (snd st) \<and>
   jobResultsTotal (snd (goroutine env ps req j st)) = jobResultsTotal (snd st)"
  by (simp add: goroutine_def split_beta)

lemma fold_goroutine_other_metrics:
  "queueDepthGauge (snd (fold (goroutine env ps req) sched st)) = queueDepthGauge (snd st) \<and>
   jobResultsTotal (snd (fold (goroutine env ps req) sched st)) = jobResultsTotal (snd st)"
  by (induction sched arbitrary: st) (simp_all add: goroutine_other_metrics)

lemma runProviders_other_metrics:
  "queueDepthGauge (snd (runProviders cfg ps env job ms m)) = queueDepthGauge m \<and>
   jobResultsTotal (snd (runProviders cfg ps env job ms m)) = jobResultsTotal m"
  by (simp add: runProviders_def fold_goroutine_other_metrics split: sum.splits)

lemma runProviders_prompt_failure:
  "buildLLMRequest env job ms (cfg_PrometheusLookback cfg) = Inl err \<Longrightarrow>
   runProviders cfg ps env job ms m = ([promptBuilderFailure err], m)"
  by (simp add: runProviders_def)

lemma assembleRecord_record:
  "fst (assembleRecord s env job m) =
     \<lparr>rec_ID = job_ID job, rec_ReceivedAt = job_ReceivedAt job,
      rec_CompletedAt = je_completed env,
      rec_AlertStatus = pl_Status (job_Payload job),
      rec_Receiver = pl_Receiver (job_Payload job),
      rec_GroupKey = pl_GroupKey (job_Payload job),
      rec_CommonLabels = pl_CommonLabels (job_Payload job),
      rec_CommonAnnots = pl_CommonAnnotations (job_Payload job),
      rec_AlertSummaries = summarizeAlerts (pl_Alerts (job_Payload job)),
      rec_Metrics = fst (fst (collectMetrics (sv_cfg s) (sv_prom s) env job m)),
      rec_Providers =
        (if sv_providers s = [] then [noBackendsResult]
         else fst (runProviders (sv_cfg s) (sv_providers s) env job
                     (fst (fst (collectMetrics (sv_cfg s) (sv_prom s) env job m)))
                     (snd (collectMetrics (sv_cfg s) (sv_prom s) env job m)))),
      rec_Error = []\<rparr>"
proof -
  obtain ms e m1 where c: "collectMetrics (sv_cfg s) (sv_prom s) env job m = ((ms, e), m1)"
    by (metis prod.collapse)
  have e: "e = None" using collectMetrics_error[of "sv_cfg s" "sv_prom s" env job m] c by simp
  show ?thesis by (simp add: assembleRecord_def c e Let_def split_beta)
qed

lemma assembleRecord_metrics:
  "jobResultsTotal (snd (assembleRecord s env job m)) = Inc (jobResultsTotal m) ''processed'' \<and>
   queueDepthGauge (snd (assembleRecord s env job m)) = queueDepthGauge m"
proof -
  obtain ms e m1 where c: "collectMetrics (sv_cfg s) (sv_prom s) env job m = ((ms, e), m1)"
    by (metis prod.collapse)
  have m1: "jobResultsTotal m1 = jobResultsTotal m" "queueDepthGauge m1 = queueDepthGauge m"
    using collectMetrics_other_metrics[of "sv_cfg s" "sv_prom s" env job m] c by simp_all
  show ?thesis
    by (simp add: assembleRecord_def c Let_def split_beta runProviders_other_metrics m1)
qed

lemma processJob_unfold:
  "processJob s env w job m =
     (case add (sv_store s) (fst (assembleRecord s env job m)) of
        Inl p \<Rightarrow> Inl p
      | Inr store \<Rightarrow> Inr (s\<lparr>sv_store := store\<rparr>, snd (assembleRecord s env job m)))"
  by (simp add: processJob_def split_beta)


lemma assembleRecord_prompt_failure:
  assumes "sv_providers s \<noteq> []"
      and "buildLLMRequest env job (fst (fst (collectMetrics (sv_cfg s) (sv_prom s) env job m)))
             (cfg_PrometheusLookback (sv_cfg s)) = Inl err"
  shows "rec_Providers (fst (assembleRecord s env job m)) = [promptBuilderFailure err]"
    and "providerRequestsTotal (snd (assembleRecord s env job m)) = providerRequestsTotal m"
proof -
  obtain ms e m1 where c: "collectMetrics (sv_cfg s) (sv_prom s) env job m = ((ms, e), m1)"
    by (metis prod.collapse)
  have b: "buildLLMRequest env job ms (cfg_PrometheusLookback (sv_cfg s)) = Inl err"
    using assms(2) c by simp
  have m1: "providerRequestsTotal m1 = providerRequestsTotal m"
    using collectMetrics_other_metrics[of "sv_cfg s" "sv_prom s" env job m] c by simp
  show "rec_Providers (fst (assembleRecord s env job m)) = [promptBuilderFailure err]"
    using assms(1) by (simp add: assembleRecord_record c runProviders_prompt_failure[OF b])
  show "providerRequestsTotal (snd (assembleRecord s env job m)) = providerRequestsTotal m"
    using assms(1)
    by (simp add: assembleRecord_def c Let_def split_beta runProviders_prompt_failure[OF b] m1)
qed

lemma buildLLMRequest_error_text:
  "buildLLMRequest env job ms lb = Inl err \<Longrightarrow> \<exists>e. err = ''marshal prompt payload: '' @ e"
  by (auto simp: buildLLMRequest_def Let_def split: sum.splits)

lemma processJob_ok:
  assumes "0 \<le> st_max (sv_store s)"
  shows "processJob s env w job m =
           Inr (s\<lparr>sv_store := (sv_store s)\<lparr>st_items :=
                   take (nat (st_max (sv_store s)))
                     (fst (assembleRecord s env job m) # st_items (sv_store s))\<rparr>\<rparr>,
                snd (assembleRecord s env job m))"
  by (simp add: processJob_unfold add_ok[OF assms])

lemma processJob_panics:
  assumes "st_max (sv_store s) < 0"
  shows "processJob s env w job m = Inl (SliceBoundsOutOfRange (st_max (sv_store s)))"
  by (simp add: processJob_unfold add_panics[OF assms])

lemma sampleServer_store:
  "st_max (sv_store (sampleServer url n ps q)) = n"
  "st_items (sv_store (sampleServer url n ps q)) = []"
  "sv_providers (sampleServer url n ps q) = ps"
  "cfg_PrometheusURL (sv_cfg (sampleServer url n ps q)) = url"
  by (simp_all add: sampleServer_def newAnalysisStore_def sampleConfig_def)

text \<open>
  With a store of capacity 0 the record of a job whose prompt could not be built is
  passed to \<open>add\<close> and cut off at once: the store lists nothing after \<open>processJob\<close>.
\<close>

theorem prompt_failure_record_not_kept_counterexample:
  "sv_providers (sampleServer ''http://prom'' 0 [sampleOllama] freeQueue) \<noteq> [] \<and>
   buildLLMRequest failingEnv (sampleJob ''j1'' 100 [sampleAlert 50])
     (fst (fst (collectMetrics (sv_cfg (sampleServer ''http://prom'' 0 [sampleOllama] freeQueue))
        (sv_prom (sampleServer ''http://prom'' 0 [sampleOllama] freeQueue)) failingEnv
        (sampleJob ''j1'' 100 [sampleAlert 50]) sampleMetrics)))
     (cfg_PrometheusLookback (sv_cfg (sampleServer ''http://prom'' 0 [sampleOllama] freeQueue)))
     = Inl ''marshal prompt payload: json: unsupported value'' \<and>
   \<not> isl (processJob (sampleServer ''http://prom'' 0 [sampleOllama] freeQueue) failingEnv 1
        (sampleJob ''j1'' 100 [sampleAlert 50]) sampleMetrics) \<and>
   list_store (sv_store (fst (projr (processJob
        (sampleServer ''http://prom'' 0 [sampleOllama] freeQueue) failingEnv 1
        (sampleJob ''j1'' 100 [sampleAlert 50]) sampleMetrics)))) = []"
proof -
  let ?s = "sampleServer ''http://prom'' 0 [sampleOllama] freeQueue"
  have nn: "0 \<le> st_max (sv_store ?s)" by (simp add: sampleServer_store)
  have a: "sv_providers ?s \<noteq> []" by (simp add: sampleServer_store)
  have b: "buildLLMRequest failingEnv (sampleJob ''j1'' 100 [sampleAlert 50])
     (fst (fst (collectMetrics (sv_cfg ?s) (sv_prom ?s) failingEnv
        (sampleJob ''j1'' 100 [sampleAlert 50]) sampleMetrics)))
     (cfg_PrometheusLookback (sv_cfg ?s))
     = Inl ''marshal prompt payload: json: unsupported value''"
    by (simp add: buildLLMRequest_def failingEnv_def)
  have c: "\<not> isl (processJob ?s failingEnv 1 (sampleJob ''j1'' 100 [sampleAlert 50]) sampleMetrics)"
    by (simp add: processJob_ok[OF nn])
  have d: "list_store (sv_store (fst (projr (processJob ?s failingEnv 1
        (sampleJob ''j1'' 100 [sampleAlert 50]) sampleMetrics)))) = []"
    by (simp add: processJob_ok[OF nn] list_store_def sampleServer_store)
  show ?thesis by (intro conjI a b c d)
qed

text \<open>
  C7, as the code has it. When a backend is configured and building the prompt fails, no
  backend is called and the provider list of the job's record is the single entry of
  the prompt builder, without a model, carrying the encoder's error. The record is
  assembled all the same, with the job's identity, alerts and metric snapshots, and
  \<open>processJob\<close> passes it to the store: with a capacity of at least one it is the first
  record listed afterwards, with a capacity of zero the store lists nothing.
\<close>

theorem prompt_failure_still_recorded:
  assumes "sv_providers s \<noteq> []"
      and "buildLLMRequest env job (fst (fst (collectMetrics (sv_cfg s) (sv_prom s) env job m)))
             (cfg_PrometheusLookback (sv_cfg s)) = Inl err"
  shows "rec_Providers (fst (assembleRecord s env job m)) =
           [\<lparr>pr_Provider = ''prompt-builder'', pr_Type = ''internal'', pr_Model = [],
             pr_DurationMS = 0, pr_Response = [], pr_Parsed = None, pr_Error = err\<rparr>] \<and>
         (\<exists>e. err = ''marshal prompt payload: '' @ e) \<and>
         providerRequestsTotal (snd (assembleRecord s env job m)) = providerRequestsTotal m \<and>
         rec_ID (fst (assembleRecord s env job m)) = job_ID job \<and>
         rec_ReceivedAt (fst (assembleRecord s env job m)) = job_ReceivedAt job \<and>
         rec_CompletedAt (fst (assembleRecord s env job m)) = je_completed env \<and>
         rec_AlertSummaries (fst (assembleRecord s env job m)) =
           summarizeAlerts (pl_Alerts (job_Payload job)) \<and>
         rec_Metrics (fst (assembleRecord s env job m)) =
           fst (fst (collectMetrics (sv_cfg s) (sv_prom s) env job m)) \<and>
         (1 \<le> st_max (sv_store s) \<longrightarrow>
            (\<exists>s' m'. processJob s env w job m = Inr (s', m') \<and>
               list_store (sv_store s') =
                 fst (assembleRecord s env job m)
                   # take (nat (st_max (sv_store s)) - 1) (list_store (sv_store s)) \<and>
               jobResultsTotal m' = Inc (jobResultsTotal m) ''processed'')) \<and>
         (st_max (sv_store s) = 0 \<longrightarrow>
            (\<exists>s' m'. processJob s env w job m = Inr (s', m') \<and>
               list_store (sv_store s') = [] \<and>
               jobResultsTotal m' = Inc (jobResultsTotal m) ''processed''))"
proof (intro conjI impI)
  show "rec_Providers (fst (assembleRecord s env job m)) =
           [\<lparr>pr_Provider = ''prompt-builder'', pr_Type = ''internal'', pr_Model = [],
             pr_DurationMS = 0, pr_Response = [], pr_Parsed = None, pr_Error = err\<rparr>]"
    by (simp add: assembleRecord_prompt_failure(1)[OF assms] promptBuilderFailure_def
        zeroProviderResult_def)
  show "\<exists>e. err = ''marshal prompt payload: '' @ e"
    using assms(2) by (rule buildLLMRequest_error_text)
  show "providerRequestsTotal (snd (assembleRecord s env job m)) = providerRequestsTotal m"
    by (rule assembleRecord_prompt_failure(2)[OF assms])
  show "rec_ID (fst (assembleRecord s env job m)) = job_ID job"
    "rec_ReceivedAt (fst (assembleRecord s env job m)) = job_ReceivedAt job"
    "rec_CompletedAt (fst (assembleRecord s env job m)) = je_completed env"
    "rec_AlertSummaries (fst (assembleRecord s env job m)) =
           summarizeAlerts (pl_Alerts (job_Payload job))"
    "rec_Metrics (fst (assembleRecord s env job m)) =
           fst (fst (collectMetrics (sv_cfg s) (sv_prom s) env job m))"
    by (simp_all add: assembleRecord_record)
next
  assume cap: "1 \<le> st_max (sv_store s)"
  then have nn: "0 \<le> st_max (sv_store s)" by simp
  obtain k where k: "nat (st_max (sv_store s)) = Suc k" using cap by (cases "nat (st_max (sv_store s))") auto
  show "\<exists>s' m'. processJob s env w job m = Inr (s', m') \<and>
               list_store (sv_store s') =
                 fst (assembleRecord s env job m)
                   # take (nat (st_max (sv_store s)) - 1) (list_store (sv_store s)) \<and>
               jobResultsTotal m' = Inc (jobResultsTotal m) ''processed''"
    by (simp add: processJob_ok[OF nn] list_store_def k assembleRecord_metrics)
next
  assume z: "st_max (sv_store s) = 0"
  then have nn: "0 \<le> st_max (sv_store s)" by simp
  show "\<exists>s' m'. processJob s env w job m = Inr (s', m') \<and>
               list_store (sv_store s') = [] \<and>
               jobResultsTotal m' = Inc (jobResultsTotal m) ''processed''"
    by (simp add: processJob_ok[OF nn] list_store_def z assembleRecord_metrics)
qed

theorem prompt_failure_still_recorded_witness:
  "sv_providers (sampleServer ''http://prom'' 25 [sampleOllama] freeQueue) \<noteq> [] \<and>
   1 \<le> st_max (sv_store (sampleServer ''http://prom'' 25 [sampleOllama] freeQueue)) \<and>
   (\<exists>s' m'. processJob (sampleServer ''http://prom'' 25 [sampleOllama] freeQueue) failingEnv 1
        (sampleJob ''j1'' 100 [sampleAlert 50]) sampleMetrics = Inr (s', m') \<and>
      map rec_ID (list_store (sv_store s')) = [''j1''] \<and>
      map rec_Providers (list_store (sv_store s')) =
        [[\<lparr>pr_Provider = ''prompt-builder'', pr_Type = ''internal'', pr_Model = [],
           pr_DurationMS = 0, pr_Response = [], pr_Parsed = None,
           pr_Error = ''marshal prompt payload: json: unsupported value''\<rparr>]]) \<and>
   st_max (sv_store (sampleServer ''http://prom'' 0 [sampleBedrock] freeQueue)) = 0 \<and>
   (\<exists>s' m'. processJob (sampleServer ''http://prom'' 0 [sampleBedrock] freeQueue) failingEnv 1
        (sampleJob ''j2'' 101 []) sampleMetrics = Inr (s', m') \<and>
      list_store (sv_store s') = [])"
proof -
  let ?s = "sampleServer ''http://prom'' 25 [sampleOllama] freeQueue"
  let ?job = "sampleJob ''j1'' 100 [sampleAlert 50]"
  have a: "sv_providers ?s \<noteq> []" by (simp add: sampleServer_store)
  have b: "buildLLMRequest failingEnv ?job
             (fst (fst (collectMetrics (sv_cfg ?s) (sv_prom ?s) failingEnv ?job sampleMetrics)))
             (cfg_PrometheusLookback (sv_cfg ?s)) = Inl ''marshal prompt payload: json: unsupported value''"
    by (simp add: buildLLMRequest_def failingEnv_def)
  have c: "1 \<le> st_max (sv_store ?s)" by (simp add: sampleServer_store)
  note t = prompt_failure_still_recorded[OF a b, where w = 1]
  note p = t[THEN conjunct1]
  note i = t[THEN conjunct2, THEN conjunct2, THEN conjunct2, THEN conjunct1]
  note st = t[THEN conjunct2, THEN conjunct2, THEN conjunct2, THEN conjunct2, THEN conjunct2,
      THEN conjunct2, THEN conjunct2, THEN conjunct2, THEN conjunct1, rule_format, OF c]
  have "\<exists>s' m'. processJob ?s failingEnv 1 ?job sampleMetrics = Inr (s', m') \<and>
      map rec_ID (list_store (sv_store s')) = [''j1''] \<and>
      map rec_Providers (list_store (sv_store s')) =
        [[\<lparr>pr_Provider = ''prompt-builder'', pr_Type = ''internal'', pr_Model = [],
           pr_DurationMS = 0, pr_Response = [], pr_Parsed = None,
           pr_Error = ''marshal prompt payload: json: unsupported value''\<rparr>]]"
    using st p i by (auto simp: sampleServer_store list_store_def sampleJob_def)
  note first = this
  let ?s0 = "sampleServer ''http://prom'' 0 [sampleBedrock] freeQueue"
  let ?job0 = "sampleJob ''j2'' 101 []"
  have a0: "sv_providers ?s0 \<noteq> []" by (simp add: sampleServer_store)
  have b0: "buildLLMRequest failingEnv ?job0
             (fst (fst (collectMetrics (sv_cfg ?s0) (sv_prom ?s0) failingEnv ?job0 sampleMetrics)))
             (cfg_PrometheusLookback (sv_cfg ?s0)) = Inl ''marshal prompt payload: json: unsupported value''"
    by (simp add: buildLLMRequest_def failingEnv_def)
  have z: "st_max (sv_store ?s0) = 0" by (simp add: sampleServer_store)
  note t0 = prompt_failure_still_recorded[OF a0 b0, where w = 1]
  note st0 = t0[THEN conjunct2, THEN conjunct2, THEN conjunct2, THEN conjunct2, THEN conjunct2,
      THEN conjunct2, THEN conjunct2, THEN conjunct2, THEN conjunct2, rule_format, OF z]
  have second: "\<exists>s' m'. processJob ?s0 failingEnv 1 ?job0 sampleMetrics = Inr (s', m') \<and>
      list_store (sv_store s') = []"
    using st0 by blast
  show ?thesis by (intro conjI a c first z second)
qed

text \<open>
  C10. \<open>collectMetrics\<close> never returns an error, so the top-level error of the record
  that \<open>processJob\<close> assembles and stores stays empty. With a blank metrics-backend
  URL it returns no snapshot and touches no counter, and the metrics list of the record
  is empty.
\<close>

theorem enrichment_never_sets_error:
  "snd (fst (collectMetrics (sv_cfg s) (sv_prom s) env job m)) = None \<and>
   rec_Error (fst (assembleRecord s env job m)) = [] \<and>
   (TrimSpace (cfg_PrometheusURL (sv_cfg s)) = [] \<longrightarrow>
      collectMetrics (sv_cfg s) (sv_prom s) env job m = (([], None), m) \<and>
      rec_Metrics (fst (assembleRecord s env job m)) = []) \<and>
   (1 \<le> st_max (sv_store s) \<longrightarrow>
      (\<exists>s' m'. processJob s env w job m = Inr (s', m') \<and>
         list_store (sv_store s') \<noteq> [] \<and>
         rec_Error (hd (list_store (sv_store s'))) = [] \<and>
         (TrimSpace (cfg_PrometheusURL (sv_cfg s)) = [] \<longrightarrow>
            rec_Metrics (hd (list_store (sv_store s'))) = [])))"
proof (intro conjI impI)
  show "snd (fst (collectMetrics (sv_cfg s) (sv_prom s) env job m)) = None"
    by (rule collectMetrics_error)
  show "rec_Error (fst (assembleRecord s env job m)) = []"
    by (simp add: assembleRecord_record)
next
  assume b: "TrimSpace (cfg_PrometheusURL (sv_cfg s)) = []"
  show "collectMetrics (sv_cfg s) (sv_prom s) env job m = (([], None), m)"
    by (rule collectMetrics_blank[OF b])
  show "rec_Metrics (fst (assembleRecord s env job m)) = []"
    by (simp add: assembleRecord_record collectMetrics_blank[OF b])
next
  assume cap: "1 \<le> st_max (sv_store s)"
  then have nn: "0 \<le> st_max (sv_store s)" by simp
  obtain k where k: "nat (st_max (sv_store s)) = Suc k" using cap by (cases "nat (st_max (sv_store s))") auto
  have hd: "hd (take (nat (st_max (sv_store s))) (fst (assembleRecord s env job m) # st_items (sv_store s)))
              = fst (assembleRecord s env job m)" by (simp add: k)
  have blank: "TrimSpace (cfg_PrometheusURL (sv_cfg s)) = [] \<longrightarrow>
      rec_Metrics (fst (assembleRecord s env job m)) = []"
    by (simp add: assembleRecord_record collectMetrics_blank)
  show "\<exists>s' m'. processJob s env w job m = Inr (s', m') \<and>
         list_store (sv_store s') \<noteq> [] \<and>
         rec_Error (hd (list_store (sv_store s'))) = [] \<and>
         (TrimSpace (cfg_PrometheusURL (sv_cfg s)) = [] \<longrightarrow>
            rec_Metrics (hd (list_store (sv_store s'))) = [])"
    using blank
    by (simp add: processJob_ok[OF nn] list_store_def k assembleRecord_record)
qed

theorem enrichment_never_sets_error_witness:
  "TrimSpace (cfg_PrometheusURL (sv_cfg (sampleServer '' '' 25 [] freeQueue))) = [] \<and>
   1 \<le> st_max (sv_store (sampleServer '' '' 25 [] freeQueue)) \<and>
   length (cfg_MetricQueries (sv_cfg (sampleServer '' '' 25 [] freeQueue))) = 2 \<and>
   (\<exists>s' m'. processJob (sampleServer '' '' 25 [] freeQueue) sampleEnv 1
        (sampleJob ''j1'' 100 [sampleAlert 50]) sampleMetrics = Inr (s', m') \<and>
      list_store (sv_store s') \<noteq> [] \<and>
      rec_Error (hd (list_store (sv_store s'))) = [] \<and>
      rec_Metrics (hd (list_store (sv_store s'))) = [])"
proof -
  let ?s = "sampleServer '' '' 25 [] freeQueue"
  have ts: "TrimSpace '' '' = []" by (simp add: TrimSpace_def leadWidth_def spaceRunes_def)
  have a: "TrimSpace (cfg_PrometheusURL (sv_cfg ?s)) = []" by (simp add: sampleServer_store ts)
  have c: "1 \<le> st_max (sv_store ?s)" by (simp add: sampleServer_store)
  have q: "length (cfg_MetricQueries (sv_cfg ?s)) = 2"
    by (simp add: sampleServer_def sampleConfig_def sampleQueries_def)
  note t = enrichment_never_sets_error[where s = "?s" and env = sampleEnv and w = 1
      and job = "sampleJob ''j1'' 100 [sampleAlert 50]" and m = sampleMetrics]
  note st = t[THEN conjunct2, THEN conjunct2, THEN conjunct2, rule_format, OF c]
  have "\<exists>s' m'. processJob ?s sampleEnv 1
        (sampleJob ''j1'' 100 [sampleAlert 50]) sampleMetrics = Inr (s', m') \<and>
      list_store (sv_store s') \<noteq> [] \<and>
      rec_Error (hd (list_store (sv_store s'))) = [] \<and>
      rec_Metrics (hd (list_store (sv_store s'))) = []"
    using st a by blast
  then show ?thesis using a c q by blast
qed

section \<open>The worker loop\<close>

lemma take_append_take: "take n (xs @ take n ys) = take n (xs @ ys)"
  by (simp add: min_def)

lemma worker_ok:
  "0 \<le> st_max (sv_store s) \<Longrightarrow> int (length (st_items (sv_store s))) \<le> st_max (sv_store s) \<Longrightarrow>
   \<exists>s' m'. worker s w jobs m = Inr (s', m') \<and>
     st_max (sv_store s') = st_max (sv_store s) \<and>
     map rec_ID (st_items (sv_store s')) =
       take (nat (st_max (sv_store s)))
         (rev (map (\<lambda>j. job_ID (fst j)) jobs) @ map rec_ID (st_items (sv_store s))) \<and>
     jobResultsTotal m' ''processed'' = jobResultsTotal m ''processed'' + length jobs \<and>
     queueDepthGauge m' = queueDepthGauge m - int (length jobs)"
proof (induction jobs arbitrary: s m)
  case Nil
  then show ?case by simp
next
  case (Cons je jobs)
  obtain job env where je: "je = (job, env)" by (cases je)
  let ?m0 = "m\<lparr>queueDepthGauge := queueDepthGauge m - 1\<rparr>"
  let ?n = "nat (st_max (sv_store s))"
  let ?r = "fst (assembleRecord s env job ?m0)"
  let ?s1 = "s\<lparr>sv_store := (sv_store s)\<lparr>st_items := take ?n (?r # st_items (sv_store s))\<rparr>\<rparr>"
  let ?m1 = "snd (assembleRecord s env job ?m0)"
  have p: "processJob s env w job ?m0 = Inr (?s1, ?m1)"
    by (rule processJob_ok[OF Cons.prems(1)])
  have mx: "st_max (sv_store ?s1) = st_max (sv_store s)" by simp
  have nn: "0 \<le> st_max (sv_store ?s1)" using Cons.prems(1) by simp
  have ln: "int (length (st_items (sv_store ?s1))) \<le> st_max (sv_store ?s1)"
    using Cons.prems(1) by simp
  obtain s' m' where w: "worker ?s1 w jobs ?m1 = Inr (s', m')"
    and a: "st_max (sv_store s') = st_max (sv_store ?s1)"
    and b: "map rec_ID (st_items (sv_store s')) =
       take (nat (st_max (sv_store ?s1)))
         (rev (map (\<lambda>j. job_ID (fst j)) jobs) @ map rec_ID (st_items (sv_store ?s1)))"
    and c: "jobResultsTotal m' ''processed'' = jobResultsTotal ?m1 ''processed'' + length jobs"
    and d: "queueDepthGauge m' = queueDepthGauge ?m1 - int (length jobs)"
    using Cons.IH[OF nn ln, of ?m1] by blast
  have ids: "map rec_ID (st_items (sv_store ?s1)) = take ?n (job_ID job # map rec_ID (st_items (sv_store s)))"
  proof -
    have "rec_ID ?r = job_ID job" by (simp add: assembleRecord_record)
    then show ?thesis by (simp add: take_map[symmetric])
  qed
  have "worker s w (je # jobs) m = Inr (s', m')" by (simp add: je p w)
  moreover have "st_max (sv_store s') = st_max (sv_store s)" using a by simp
  moreover have "map rec_ID (st_items (sv_store s')) =
       take ?n (rev (map (\<lambda>j. job_ID (fst j)) (je # jobs)) @ map rec_ID (st_items (sv_store s)))"
  proof -
    have e: "rev (map (\<lambda>j. job_ID (fst j)) (je # jobs)) @ map rec_ID (st_items (sv_store s)) =
             rev (map (\<lambda>j. job_ID (fst j)) jobs) @ (job_ID job # map rec_ID (st_items (sv_store s)))"
      by (simp add: je)
    have "map rec_ID (st_items (sv_store s')) =
            take ?n (rev (map (\<lambda>j. job_ID (fst j)) jobs)
              @ take ?n (job_ID job # map rec_ID (st_items (sv_store s))))"
      using b unfolding mx ids .
    also have "\<dots> = take ?n (rev (map (\<lambda>j. job_ID (fst j)) jobs)
              @ (job_ID job # map rec_ID (st_items (sv_store s))))"
      by (rule take_append_take)
    finally show ?thesis by (simp only: e)
  qed
  moreover have "jobResultsTotal m' ''processed'' = jobResultsTotal m ''processed'' + length (je # jobs)"
    using c by (simp add: assembleRecord_metrics Inc_def)
  moreover have "queueDepthGauge m' = queueDepthGauge m - int (length (je # jobs))"
    using d by (simp add: assembleRecord_metrics)
  ultimately show ?case by blast
qed

lemma worker_panics:
  "st_max (sv_store s) < 0 \<Longrightarrow> jobs \<noteq> [] \<Longrightarrow>
   worker s w jobs m = Inl (SliceBoundsOutOfRange (st_max (sv_store s)))"
  by (cases jobs) (auto simp: processJob_panics)


text \<open>
  A worker does not recover: with a negative store capacity the first job panics in
  \<open>add\<close>, and the worker ends with that panic instead of going on to the second job.
\<close>

theorem worker_panic_not_recovered_counterexample:
  "processJob (sampleServer ''http://prom'' (- 1) [] freeQueue) sampleEnv 1
      (sampleJob ''j1'' 100 [sampleAlert 50])
      (sampleMetrics\<lparr>queueDepthGauge := queueDepthGauge sampleMetrics - 1\<rparr>)
     = Inl (SliceBoundsOutOfRange (- 1)) \<and>
   worker (sampleServer ''http://prom'' (- 1) [] freeQueue) 1
      [(sampleJob ''j1'' 100 [sampleAlert 50], sampleEnv),
       (sampleJob ''j2'' 101 [sampleAlert 50], sampleEnv)] sampleMetrics
     = Inl (SliceBoundsOutOfRange (- 1))"
proof -
  have m: "st_max (sv_store (sampleServer ''http://prom'' (- 1) [] freeQueue)) = - 1"
    by (simp add: sampleServer_def newAnalysisStore_def)
  have n: "st_max (sv_store (sampleServer ''http://prom'' (- 1) [] freeQueue)) < 0"
    by (simp add: m)
  show ?thesis
    using processJob_panics[OF n] worker_panics[OF n] by (simp add: m)
qed

text \<open>
  C9, as the code has it. A worker whose jobs are processed without a panic (always the
  case when the store capacity is not negative) goes through all the jobs it receives,
  in order, lowering the queue-depth gauge and counting each as processed. The loop has
  no recovery: a panic of \<open>processJob\<close> ends the worker at that job, and the jobs after
  it are not processed.
\<close>

theorem worker_without_recovery:
  "(0 \<le> st_max (sv_store s) \<and> int (length (st_items (sv_store s))) \<le> st_max (sv_store s) \<longrightarrow>
      (\<exists>s' m'. worker s w jobs m = Inr (s', m') \<and>
         map rec_ID (list_store (sv_store s')) =
           take (nat (st_max (sv_store s)))
             (rev (map (\<lambda>j. job_ID (fst j)) jobs) @ map rec_ID (list_store (sv_store s))) \<and>
         jobResultsTotal m' ''processed'' = jobResultsTotal m ''processed'' + length jobs \<and>
         queueDepthGauge m' = queueDepthGauge m - int (length jobs))) \<and>
   (\<forall>job env rest p.
      processJob s env w job (m\<lparr>queueDepthGauge := queueDepthGauge m - 1\<rparr>) = Inl p \<longrightarrow>
        worker s w ((job, env) # rest) m = Inl p) \<and>
   (st_max (sv_store s) < 0 \<and> jobs \<noteq> [] \<longrightarrow>
      worker s w jobs m = Inl (SliceBoundsOutOfRange (st_max (sv_store s))))"
proof (intro conjI impI allI)
  assume "0 \<le> st_max (sv_store s) \<and> int (length (st_items (sv_store s))) \<le> st_max (sv_store s)"
  then show "\<exists>s' m'. worker s w jobs m = Inr (s', m') \<and>
         map rec_ID (list_store (sv_store s')) =
           take (nat (st_max (sv_store s)))
             (rev (map (\<lambda>j. job_ID (fst j)) jobs) @ map rec_ID (list_store (sv_store s))) \<and>
         jobResultsTotal m' ''processed'' = jobResultsTotal m ''processed'' + length jobs \<and>
         queueDepthGauge m' = queueDepthGauge m - int (length jobs)"
    using worker_ok[of s w jobs m] unfolding list_store_def by blast
next
  fix job env rest p
  assume "processJob s env w job (m\<lparr>queueDepthGauge := queueDepthGauge m - 1\<rparr>) = Inl p"
  then show "worker s w ((job, env) # rest) m = Inl p" by simp
next
  assume "st_max (sv_store s) < 0 \<and> jobs \<noteq> []"
  then show "worker s w jobs m = Inl (SliceBoundsOutOfRange (st_max (sv_store s)))"
    using worker_panics by blast
qed

theorem worker_without_recovery_witness:
  "(\<exists>s' m'. worker (sampleServer ''http://prom'' 25 [] freeQueue) 1
        [(sampleJob ''j1'' 100 [sampleAlert 50], sampleEnv),
         (sampleJob ''j2'' 101 [sampleAlert 50], sampleEnv)] sampleMetrics = Inr (s', m') \<and>
      map rec_ID (list_store (sv_store s')) = [''j2'', ''j1''] \<and>
      jobResultsTotal m' ''processed'' = 2 \<and> queueDepthGauge m' = - 2) \<and>
   processJob (sampleServer ''http://prom'' (- 2) [] freeQueue) sampleEnv 1
      (sampleJob ''j3'' 100 [])
      (sampleMetrics\<lparr>queueDepthGauge := queueDepthGauge sampleMetrics - 1\<rparr>)
     = Inl (SliceBoundsOutOfRange (- 2)) \<and>
   worker (sampleServer ''http://prom'' (- 2) [] freeQueue) 1
      [(sampleJob ''j3'' 100 [], sampleEnv)] sampleMetrics = Inl (SliceBoundsOutOfRange (- 2))"
proof -
  note a = worker_without_recovery[where s = "sampleServer ''http://prom'' 25 [] freeQueue"
      and w = 1 and m = sampleMetrics
      and jobs = "[(sampleJob ''j1'' 100 [sampleAlert 50], sampleEnv),
         (sampleJob ''j2'' 101 [sampleAlert 50], sampleEnv)]", THEN conjunct1]
  note b = worker_without_recovery[where s = "sampleServer ''http://prom'' (- 2) [] freeQueue"
      and w = 1 and m = sampleMetrics
      and jobs = "[(sampleJob ''j3'' 100 [], sampleEnv)]", THEN conjunct2]
  have p: "processJob (sampleServer ''http://prom'' (- 2) [] freeQueue) sampleEnv 1
      (sampleJob ''j3'' 100 [])
      (sampleMetrics\<lparr>queueDepthGauge := queueDepthGauge sampleMetrics - 1\<rparr>)
     = Inl (SliceBoundsOutOfRange (- 2))"
    using processJob_panics[of "sampleServer ''http://prom'' (- 2) [] freeQueue"]
    by (simp add: sampleServer_store)
  have w3: "worker (sampleServer ''http://prom'' (- 2) [] freeQueue) 1
      [(sampleJob ''j3'' 100 [], sampleEnv)] sampleMetrics = Inl (SliceBoundsOutOfRange (- 2))"
    using b[THEN conjunct1, rule_format, OF p] .
  have pre: "0 \<le> st_max (sv_store (sampleServer ''http://prom'' 25 [] freeQueue)) \<and>
      int (length (st_items (sv_store (sampleServer ''http://prom'' 25 [] freeQueue))))
        \<le> st_max (sv_store (sampleServer ''http://prom'' 25 [] freeQueue))"
    by (simp add: sampleServer_store)
  obtain s' m' where w: "worker (sampleServer ''http://prom'' 25 [] freeQueue) 1
        [(sampleJob ''j1'' 100 [sampleAlert 50], sampleEnv),
         (sampleJob ''j2'' 101 [sampleAlert 50], sampleEnv)] sampleMetrics = Inr (s', m')"
    and ids: "map rec_ID (list_store (sv_store s')) =
           take (nat (st_max (sv_store (sampleServer ''http://prom'' 25 [] freeQueue))))
             (rev (map (\<lambda>j. job_ID (fst j)) [(sampleJob ''j1'' 100 [sampleAlert 50], sampleEnv),
         (sampleJob ''j2'' 101 [sampleAlert 50], sampleEnv)])
              @ map rec_ID (list_store (sv_store (sampleServer ''http://prom'' 25 [] freeQueue))))"
    and c: "jobResultsTotal m' ''processed'' = jobResultsTotal sampleMetrics ''processed''
              + length [(sampleJob ''j1'' 100 [sampleAlert 50], sampleEnv),
         (sampleJob ''j2'' 101 [sampleAlert 50], sampleEnv)]"
    and d: "queueDepthGauge m' = queueDepthGauge sampleMetrics
              - int (length [(sampleJob ''j1'' 100 [sampleAlert 50], sampleEnv),
         (sampleJob ''j2'' 101 [sampleAlert 50], sampleEnv)])"
    using a[rule_format, OF pre] by blast
  have ids': "map rec_ID (list_store (sv_store s')) = [''j2'', ''j1'']"
    using ids by (simp add: sampleServer_store list_store_def sampleJob_def)
  have c': "jobResultsTotal m' ''processed'' = 2" using c by (simp add: sampleMetrics_def)
  have d': "queueDepthGauge m' = - 2" using d by (simp add: sampleMetrics_def)
  have ok: "\<exists>s' m'. worker (sampleServer ''http://prom'' 25 [] freeQueue) 1
        [(sampleJob ''j1'' 100 [sampleAlert 50], sampleEnv),
         (sampleJob ''j2'' 101 [sampleAlert 50], sampleEnv)] sampleMetrics = Inr (s', m') \<and>
      map rec_ID (list_store (sv_store s')) = [''j2'', ''j1''] \<and>
      jobResultsTotal m' ''processed'' = 2 \<and> queueDepthGauge m' = - 2"
    by (intro exI[of _ s'] exI[of _ m'] conjI w ids' c' d')
  show ?thesis by (intro conjI ok p w3)
qed


end
